theory Spec2Isabelle
  imports Main "HOL-Library.Word" "HOL-Library.Signed_Division"
begin

section \<open>Go values shared by the packages\<close>

text \<open>
  Go's fixed-width integers are words; \<open>*big.Int\<close> is an unbounded \<open>int\<close>, and a
  pointer that may be nil is an \<open>option\<close>. A Go \<open>error\<close> is an opaque value with
  a message. A call either returns its (multiple) results, panics (nothing here
  recovers, so the process dies with the panic), or ends the process through
  go-ethereum's \<open>log.Crit\<close>, which logs the message and calls \<open>os.Exit(1)\<close>.
\<close>

type_synonym uint64 = "64 word"
type_synonym int64 = "64 word"
type_synonym address = "160 word"
type_synonym PrivateKey = int
type_synonym PublicKey = "int \<times> int"
type_synonym signature = "int \<times> int \<times> int"
type_synonym Blob = "8 word list"
type_synonym Commitment = "8 word list"
type_synonym Proof = "8 word list"
type_synonym Hash = "8 word list"

datatype error = Error string

datatype 'a outcome = Returns 'a | Panics string | Exits string

definition nil_dereference :: string where
  "nil_dereference = ''invalid memory address or nil pointer dereference''"

section \<open>core/mevcommit: the account\<close>

text \<open>\<open>bind.TransactOpts\<close>, as far as the code reads it: the sender and the chain.\<close>

record TransactOpts =
  From :: address
  OptsChainID :: int

record AuthAcct =
  PrivateKey :: "PrivateKey option"
  PublicKey :: "PublicKey option"
  Address :: address
  Auth :: "TransactOpts option"

section \<open>core/eth: transactions\<close>

text \<open>
  \<open>types.Header\<close>, the fields the builders read. \<open>BaseFee\<close>, \<open>ExcessBlobGas\<close>
  and \<open>BlobGasUsed\<close> are pointers that the JSON decoding leaves nil when the node
  does not send them.
\<close>

record Header =
  Number :: int
  BaseFee :: "int option"
  ExcessBlobGas :: "uint64 option"
  BlobGasUsed :: "uint64 option"

text \<open>
  \<open>ethclient.Client\<close>: the answers of the node to the three state reads, each a
  value or an error.
\<close>

record Client =
  PendingNonceAt :: "address \<Rightarrow> error + uint64"
  HeaderByNumber :: "error + Header"
  NetworkID :: "error + int"

record BlobTxSidecar =
  Blobs :: "Blob list"
  Commitments :: "Commitment list"
  Proofs :: "Proof list"

datatype TxType = DynamicFeeTxType | BlobTxType

text \<open>
  \<open>types.Transaction\<close> seen through its accessors. Fields that a transaction kind
  does not have are empty; \<open>Signature\<close> is \<open>None\<close> until the transaction is signed.
\<close>

record Transaction =
  Type :: TxType
  ChainID :: "int option"
  Nonce :: uint64
  GasTipCap :: int
  GasFeeCap :: int
  Gas :: uint64
  To :: "address option"
  Value :: int
  BlobFeeCap :: "int option"
  BlobHashes :: "Hash list"
  Sidecar :: "BlobTxSidecar option"
  Signature :: "signature option"

text \<open>\<open>big.Int.Uint64\<close>: the low 64 bits of the absolute value.\<close>

definition Uint64 :: "int \<Rightarrow> uint64" where
  "Uint64 x = word_of_int \<bar>x\<bar>"

text \<open>
  \<open>types.SignTx\<close> and the keyed transactor's \<open>Signer\<close>: the ECDSA signature over the
  transaction hash is the library's (parameter \<open>sign\<close>, given the key, the chain id
  and the transaction); it reads the key through the pointer, and on success the
  result is a copy of the transaction carrying the signature and the chain id.
\<close>

type_synonym signer = "PrivateKey \<Rightarrow> int \<Rightarrow> Transaction \<Rightarrow> error + signature"

definition SignTx ::
  "signer \<Rightarrow> Transaction \<Rightarrow> int \<Rightarrow> PrivateKey option \<Rightarrow> (Transaction option \<times> error option) outcome"
where
  "SignTx sign tx chainID prv =
     (case prv of
        None \<Rightarrow> Panics nil_dereference
      | Some k \<Rightarrow>
          (case sign k chainID tx of
             Inl err \<Rightarrow> Returns (None, Some err)
           | Inr sig \<Rightarrow> Returns (Some (tx\<lparr>ChainID := Some chainID, Signature := Some sig\<rparr>), None)))"

text \<open>\<open>SelfETHTransfer\<close>, sendtx.go lines 28-77: the tip is the constant 0.\<close>

definition SelfETHTransfer_a ::
  "signer \<Rightarrow> Client \<Rightarrow> AuthAcct \<Rightarrow> int \<Rightarrow> uint64 \<Rightarrow>
     (Transaction option \<times> uint64 \<times> error option) outcome"
where
  "SelfETHTransfer_a sign client authAcct val offset =
     (case PendingNonceAt client (Address authAcct) of
        Inl err \<Rightarrow> Returns (None, 0, Some err)
      | Inr nonce \<Rightarrow>
     (case HeaderByNumber client of
        Inl err \<Rightarrow> Returns (None, 0, Some err)
      | Inr header \<Rightarrow>
     (let blockNumber = Uint64 (Number header) in
      case BaseFee header of
        None \<Rightarrow> Panics nil_dereference
      | Some baseFee \<Rightarrow>
     (let maxPriorityFee = baseFee * 2;
          maxFeePerGas = maxPriorityFee * 2 in
      case NetworkID client of
        Inl err \<Rightarrow> Returns (None, 0, Some err)
      | Inr chainID \<Rightarrow>
     (let tx = \<lparr>Type = DynamicFeeTxType, ChainID = None, Nonce = nonce,
                 GasTipCap = 0, GasFeeCap = maxFeePerGas, Gas = 500000,
                 To = Some (Address authAcct), Value = val,
                 BlobFeeCap = None, BlobHashes = [], Sidecar = None, Signature = None\<rparr> in
      case SignTx sign tx chainID (PrivateKey authAcct) of
        Panics p \<Rightarrow> Panics p
      | Exits p \<Rightarrow> Exits p
      | Returns (_, Some err) \<Rightarrow> Returns (None, 0, Some err)
      | Returns (signedTx, None) \<Rightarrow> Returns (signedTx, blockNumber + offset, None))))))"

text \<open>\<open>SelfETHTransfer\<close>, sendtx.go lines 243-292: the tip is \<open>maxPriorityFee\<close>.\<close>

definition SelfETHTransfer_b ::
  "signer \<Rightarrow> Client \<Rightarrow> AuthAcct \<Rightarrow> int \<Rightarrow> uint64 \<Rightarrow>
     (Transaction option \<times> uint64 \<times> error option) outcome"
where
  "SelfETHTransfer_b sign client authAcct val offset =
     (case PendingNonceAt client (Address authAcct) of
        Inl err \<Rightarrow> Returns (None, 0, Some err)
      | Inr nonce \<Rightarrow>
     (case HeaderByNumber client of
        Inl err \<Rightarrow> Returns (None, 0, Some err)
      | Inr header \<Rightarrow>
     (let blockNumber = Uint64 (Number header) in
      case BaseFee header of
        None \<Rightarrow> Panics nil_dereference
      | Some baseFee \<Rightarrow>
     (let maxPriorityFee = baseFee * 2;
          maxFeePerGas = maxPriorityFee * 2 in
      case NetworkID client of
        Inl err \<Rightarrow> Returns (None, 0, Some err)
      | Inr chainID \<Rightarrow>
     (let tx = \<lparr>Type = DynamicFeeTxType, ChainID = None, Nonce = nonce,
                 GasTipCap = maxPriorityFee, GasFeeCap = maxFeePerGas, Gas = 500000,
                 To = Some (Address authAcct), Value = val,
                 BlobFeeCap = None, BlobHashes = [], Sidecar = None, Signature = None\<rparr> in
      case SignTx sign tx chainID (PrivateKey authAcct) of
        Panics p \<Rightarrow> Panics p
      | Exits p \<Rightarrow> Exits p
      | Returns (_, Some err) \<Rightarrow> Returns (None, 0, Some err)
      | Returns (signedTx, None) \<Rightarrow> Returns (signedTx, blockNumber + offset, None))))))"

text \<open>The transaction a builder hands back, if it returned one.\<close>

definition built_tx ::
  "(Transaction option \<times> uint64 \<times> error option) outcome \<Rightarrow> Transaction option"
where
  "built_tx r = (case r of Returns (Some tx, _, None) \<Rightarrow> Some tx | _ \<Rightarrow> None)"

section \<open>core/eth: blob transactions\<close>

text \<open>
  What the builders take from libraries outside the repository: the ECDSA signer and
  key derivation (go-ethereum \<open>crypto\<close>), the blob fee market
  (\<open>eip4844.CalcExcessBlobGas\<close>, \<open>eip4844.CalcBlobFee\<close>), the KZG service
  (\<open>kzg4844\<close>: a value and an error, as Go returns them), the versioned hash of a
  commitment, and \<open>randBlob i\<close>, the blob that the \<open>i\<close>-th call of \<open>randBlob\<close>
  draws from the process-wide random generator.
\<close>

record Libs =
  Sign :: signer
  HexToECDSA :: "string \<Rightarrow> error + PrivateKey"
  Public :: "PrivateKey \<Rightarrow> PublicKey"
  PubkeyToAddress :: "PublicKey \<Rightarrow> address"
  CalcExcessBlobGas :: "uint64 \<Rightarrow> uint64 \<Rightarrow> uint64"
  CalcBlobFee :: "uint64 \<Rightarrow> int"
  BlobToCommitment :: "Blob \<Rightarrow> Commitment \<times> error option"
  ComputeBlobProof :: "Blob \<Rightarrow> Commitment \<Rightarrow> Proof \<times> error option"
  CalcBlobHashV1 :: "Commitment \<Rightarrow> Hash"
  randBlob :: "nat \<Rightarrow> Blob"

text \<open>
  \<open>uint256.MustFromBig\<close>: panics when the magnitude needs more than 256 bits;
  a negative value is stored in two's complement.
\<close>

definition MustFromBig :: "int \<Rightarrow> int outcome" where
  "MustFromBig b = (if \<bar>b\<bar> \<ge> 2 ^ 256 then Panics ''overflow'' else Returns (b mod 2 ^ 256))"

text \<open>\<open>makeSidecar\<close>: both errors are assigned to the blank identifier.\<close>

fun makeSidecar_loop ::
  "Libs \<Rightarrow> Blob list \<Rightarrow> Commitment list \<Rightarrow> Proof list \<Rightarrow> Commitment list \<times> Proof list"
where
  "makeSidecar_loop lib [] commitments proofs = (commitments, proofs)"
| "makeSidecar_loop lib (blob # rest) commitments proofs =
     (let c = fst (BlobToCommitment lib blob);
          p = fst (ComputeBlobProof lib blob c)
      in makeSidecar_loop lib rest (commitments @ [c]) (proofs @ [p]))"

definition makeSidecar :: "Libs \<Rightarrow> Blob list \<Rightarrow> BlobTxSidecar" where
  "makeSidecar lib blobs =
     (case makeSidecar_loop lib blobs [] [] of
        (commitments, proofs) \<Rightarrow> \<lparr>Blobs = blobs, Commitments = commitments, Proofs = proofs\<rparr>)"

text \<open>\<open>randBlobs\<close>: \<open>make\<close> panics on a negative length.\<close>

definition randBlobs :: "Libs \<Rightarrow> int \<Rightarrow> Blob list outcome" where
  "randBlobs lib n =
     (if n < 0 then Panics ''makeslice: len out of range''
      else Returns (map (randBlob lib) [0..<nat n]))"

text \<open>\<open>BlobTxSidecar.BlobHashes\<close> (go-ethereum): one versioned hash per commitment.\<close>

definition SidecarBlobHashes :: "Libs \<Rightarrow> BlobTxSidecar \<Rightarrow> Hash list" where
  "SidecarBlobHashes lib sc = map (CalcBlobHashV1 lib) (Commitments sc)"

text \<open>
  \<open>ExecuteBlobTransaction\<close>, sendtx.go lines 80-163. The type assertion on the public
  key always holds for an ECDSA private key, so its error branch is not a branch of the
  model. \<open>big.Int.Div\<close> is Euclidean; its divisor here is the positive constant 100,
  where it agrees with \<open>div\<close>.
\<close>

definition ExecuteBlobTransaction ::
  "Libs \<Rightarrow> Client \<Rightarrow> AuthAcct \<Rightarrow> int \<Rightarrow> uint64 \<Rightarrow>
     (Transaction option \<times> uint64 \<times> error option) outcome"
where
  "ExecuteBlobTransaction lib client authAcct numBlobs offset =
     (let gasLimit = 500000 in
      case PrivateKey authAcct of
        None \<Rightarrow> Panics nil_dereference
      | Some privateKey \<Rightarrow>
     (let fromAddress = PubkeyToAddress lib (Public lib privateKey) in
      case PendingNonceAt client (Address authAcct) of
        Inl err \<Rightarrow> Returns (None, 0, Some err)
      | Inr nonce \<Rightarrow>
     (case HeaderByNumber client of
        Inl err \<Rightarrow> Returns (None, 0, Some err)
      | Inr header \<Rightarrow>
     (let blockNumber = Uint64 (Number header) in
      case NetworkID client of
        Inl err \<Rightarrow> Returns (None, 0, Some err)
      | Inr chainID \<Rightarrow>
     (case (ExcessBlobGas header, BlobGasUsed header) of
        (None, _) \<Rightarrow> Panics nil_dereference
      | (Some _, None) \<Rightarrow> Panics nil_dereference
      | (Some excessBlobGas, Some blobGasUsed) \<Rightarrow>
     (let parentExcessBlobGas = CalcExcessBlobGas lib excessBlobGas blobGasUsed;
          blobFeeCap = CalcBlobFee lib parentExcessBlobGas;
          blobFeeCap = blobFeeCap + 1 in
      case randBlobs lib numBlobs of
        Panics p \<Rightarrow> Panics p
      | Exits p \<Rightarrow> Exits p
      | Returns blobs \<Rightarrow>
     (let sideCar = makeSidecar lib blobs;
          blobHashes = SidecarBlobHashes lib sideCar;
          incrementFactor = 110;
          blobFeeCap = (blobFeeCap * incrementFactor) div 100 in
      case BaseFee header of
        None \<Rightarrow> Panics nil_dereference
      | Some baseFee \<Rightarrow>
     (let maxPriorityFee = baseFee * 2;
          maxFeePerGas = maxPriorityFee * 2 in
      case MustFromBig chainID of
        Panics p \<Rightarrow> Panics p
      | Exits p \<Rightarrow> Exits p
      | Returns chainID256 \<Rightarrow>
     (case MustFromBig maxFeePerGas of
        Panics p \<Rightarrow> Panics p
      | Exits p \<Rightarrow> Exits p
      | Returns gasFeeCap \<Rightarrow>
     (case MustFromBig blobFeeCap of
        Panics p \<Rightarrow> Panics p
      | Exits p \<Rightarrow> Exits p
      | Returns blobFeeCap256 \<Rightarrow>
     (let tx = \<lparr>Type = BlobTxType, ChainID = Some chainID256, Nonce = nonce,
                 GasTipCap = 0, GasFeeCap = gasFeeCap, Gas = gasLimit,
                 To = Some fromAddress, Value = 0,
                 BlobFeeCap = Some blobFeeCap256, BlobHashes = blobHashes,
                 Sidecar = Some sideCar, Signature = None\<rparr> in
      case SignTx (Sign lib) tx chainID (Some privateKey) of
        Panics p \<Rightarrow> Panics p
      | Exits p \<Rightarrow> Exits p
      | Returns (_, Some err) \<Rightarrow> Returns (None, 0, Some err)
      | Returns (signedTx, None) \<Rightarrow> Returns (signedTx, blockNumber + offset, None))))))))))))"

text \<open>The same libraries with every KZG error erased and the values kept.\<close>

definition without_kzg_errors :: "Libs \<Rightarrow> Libs" where
  "without_kzg_errors lib =
     lib\<lparr>BlobToCommitment := (\<lambda>blob. (fst (BlobToCommitment lib blob), None)),
         ComputeBlobProof := (\<lambda>blob c. (fst (ComputeBlobProof lib blob c), None))\<rparr>"

section \<open>core/mevcommit: sending a bid\<close>

text \<open>\<open>pb.Bid\<close>, the request of the bidding service.\<close>

record Bid =
  Amount :: string
  BlockNumber :: int64
  DecayStartTimestamp :: int64
  DecayEndTimestamp :: int64
  TxHashes :: "string list"
  RawTransactions :: "string list"

text \<open>
  The dynamic type of \<open>SendBid\<close>'s \<open>input interface{}\<close>: a \<open>[]string\<close>, a
  \<open>[]*types.Transaction\<close> (whose elements may be nil), or a value of another type,
  of which the code prints the name (\<open>%T\<close>).
\<close>

datatype bid_input =
  StringSlice "string list"
| TransactionSlice "Transaction option list"
| OtherInput string

text \<open>
  The response stream \<open>pb.Bidder_SendBidClient\<close>: \<open>response k\<close> is what the
  \<open>k\<close>-th call of \<open>Recv\<close> gives, a message, \<open>io.EOF\<close> or another error.
\<close>

datatype 'm recv = Msg 'm | EOF | RecvError error

type_synonym 'm stream = "nat \<Rightarrow> 'm recv"

definition HasPrefix :: "string \<Rightarrow> string \<Rightarrow> bool" where
  "HasPrefix s pre = (take (length pre) s = pre)"

definition TrimPrefix :: "string \<Rightarrow> string \<Rightarrow> string" where
  "TrimPrefix s pre = (if HasPrefix s pre then drop (length pre) s else s)"

definition hexdigit :: "nat \<Rightarrow> char" where
  "hexdigit n = ''0123456789abcdef'' ! n"

definition EncodeToString :: "8 word list \<Rightarrow> string" where
  "EncodeToString bs = concat (map (\<lambda>b. [hexdigit (unat b div 16), hexdigit (unat b mod 16)]) bs)"

definition Errorf_w :: "string \<Rightarrow> error \<Rightarrow> error" where
  "Errorf_w msg err = (case err of Error e \<Rightarrow> Error (msg @ e))"

text \<open>
  The loop over a \<open>[]*types.Transaction\<close>: \<open>MarshalBinary\<close> (the library's
  encoding, parameter \<open>marshal\<close>) dereferences the transaction; the first error ends
  the call.
\<close>

fun marshal_loop ::
  "(Transaction \<Rightarrow> error + 8 word list) \<Rightarrow> Transaction option list \<Rightarrow> string list \<Rightarrow>
     (error + string list) outcome"
where
  "marshal_loop marshal [] rawTransactions = Returns (Inr rawTransactions)"
| "marshal_loop marshal (None # rest) rawTransactions = Panics nil_dereference"
| "marshal_loop marshal (Some tx # rest) rawTransactions =
     (case marshal tx of
        Inl err \<Rightarrow> Returns (Inl (Errorf_w ''failed to marshal transaction: '' err))
      | Inr rlpEncodedTx \<Rightarrow>
          marshal_loop marshal rest (rawTransactions @ [EncodeToString rlpEncodedTx]))"

text \<open>
  The receive loop, sendtx.go lines 376-389, from the \<open>k\<close>-th \<open>Recv\<close> on. It gives
  the accumulated responses or the error, and the number of \<open>Recv\<close> calls made; on a
  stream that never ends it does not return (\<open>None\<close>).
\<close>

partial_function (option) recv_loop ::
  "'m stream \<Rightarrow> nat \<Rightarrow> 'm list \<Rightarrow> ((error + 'm list) \<times> nat) option"
where
  "recv_loop response k responses =
     (case response k of
        EOF \<Rightarrow> Some (Inr responses, Suc k)
      | RecvError err \<Rightarrow> Some (Inl (Errorf_w ''failed to send bid: '' err), Suc k)
      | Msg msg \<Rightarrow> recv_loop response (Suc k) (responses @ [msg]))"

text \<open>
  What a call of \<open>SendBid\<close> has done when it returns: the two results (the stream
  handle, as the stream and the number of \<open>Recv\<close> calls made on it, and the error),
  the request handed to the service's \<open>SendBid\<close>, and what was handed to the two
  persistence goroutines \<open>saveBidRequest\<close> and \<open>saveBidResponses\<close>.
\<close>

record 'm SendBid_result =
  ret_stream :: "('m stream \<times> nat) option"
  ret_err :: "error option"
  request_sent :: "Bid option"
  savedRequest :: "Bid option"
  savedResponses :: "'m list option"

text \<open>
  \<open>Bidder.SendBid\<close>, sendtx.go lines 312-398, in two parts: the request it builds
  from its input (lines 312-358, \<open>SendBid_request\<close>) and the call that sends it and
  reads the stream. \<open>grpc\<close> is the service's streaming call: a stream or an error.
\<close>

definition SendBid_request ::
  "(Transaction \<Rightarrow> error + 8 word list) \<Rightarrow>
     bid_input \<Rightarrow> string \<Rightarrow> int64 \<Rightarrow> int64 \<Rightarrow> int64 \<Rightarrow> (error + Bid) outcome"
where
  "SendBid_request marshal input amount blockNumber decayStart decayEnd =
     (let converted =
            (case input of
               StringSlice v \<Rightarrow> Returns (Inr (map (\<lambda>hash. TrimPrefix hash ''0x'') v, []))
             | TransactionSlice v \<Rightarrow>
                 (case marshal_loop marshal v [] of
                    Panics p \<Rightarrow> Panics p
                  | Exits p \<Rightarrow> Exits p
                  | Returns (Inl e) \<Rightarrow> Returns (Inl e)
                  | Returns (Inr rawTransactions) \<Rightarrow> Returns (Inr ([], rawTransactions)))
             | OtherInput T \<Rightarrow> Returns (Inl (Error (''unsupported input type: '' @ T))))
      in
      case converted of
        Panics p \<Rightarrow> Panics p
      | Exits p \<Rightarrow> Exits p
      | Returns (Inl e) \<Rightarrow> Returns (Inl e)
      | Returns (Inr (txHashes, rawTransactions)) \<Rightarrow>
     (let bidRequest = \<lparr>Amount = amount, BlockNumber = blockNumber,
                         DecayStartTimestamp = decayStart, DecayEndTimestamp = decayEnd,
                         TxHashes = [], RawTransactions = []\<rparr>
      in
      Returns (Inr
        (if length txHashes > 0 then bidRequest\<lparr>TxHashes := txHashes\<rparr>
         else if length rawTransactions > 0
           then bidRequest\<lparr>RawTransactions := rawTransactions\<rparr>
         else bidRequest))))"

definition SendBid ::
  "(Transaction \<Rightarrow> error + 8 word list) \<Rightarrow> (Bid \<Rightarrow> error + 'm stream) \<Rightarrow>
     bid_input \<Rightarrow> string \<Rightarrow> int64 \<Rightarrow> int64 \<Rightarrow> int64 \<Rightarrow> 'm SendBid_result outcome option"
where
  "SendBid marshal grpc input amount blockNumber decayStart decayEnd =
     (let failed = (\<lambda>e s. Some (Returns \<lparr>ret_stream = None, ret_err = Some e, request_sent = s,
                                         savedRequest = None, savedResponses = None\<rparr>))
      in
      case SendBid_request marshal input amount blockNumber decayStart decayEnd of
        Panics p \<Rightarrow> Some (Panics p)
      | Exits p \<Rightarrow> Some (Exits p)
      | Returns (Inl e) \<Rightarrow> failed e None
      | Returns (Inr bidRequest) \<Rightarrow>
     (case grpc bidRequest of
        Inl e \<Rightarrow> failed (Errorf_w ''failed to send bid: '' e) (Some bidRequest)
      | Inr response \<Rightarrow>
     (case recv_loop response 0 [] of
        None \<Rightarrow> None
      | Some (Inl e, n) \<Rightarrow>
          Some (Returns \<lparr>ret_stream = None, ret_err = Some e, request_sent = Some bidRequest,
                         savedRequest = Some bidRequest, savedResponses = None\<rparr>)
      | Some (Inr responses, n) \<Rightarrow>
          Some (Returns \<lparr>ret_stream = Some (response, n), ret_err = None,
                         request_sent = Some bidRequest,
                         savedRequest = Some bidRequest, savedResponses = Some responses\<rparr>))))"

section \<open>cmd: the bid for one transaction\<close>

text \<open>
  \<open>time.Second\<close> in nanoseconds, and \<open>Duration.Milliseconds\<close>, Go's \<open>int64\<close>
  division, which truncates towards zero.
\<close>

definition Second :: int64 where
  "Second = 1000000000"

definition Milliseconds :: "int64 \<Rightarrow> int64" where
  "Milliseconds d = word_of_int (sint d sdiv 1000000)"

text \<open>
  The dynamic type of \<open>sendPreconfBid\<close>'s \<open>input interface{}\<close>: a \<open>string\<close>, a
  \<open>*types.Transaction\<close> (possibly nil), or anything else.
\<close>

datatype preconf_input =
  InputString string
| InputTransaction "Transaction option"
| InputOther

text \<open>
  \<open>sendPreconfBid\<close>, lines 300-348 of the command. \<open>now\<close> is the reading
  \<open>time.Now().UnixMilli()\<close>; \<open>amount\<close> is the string of the randomly drawn amount
  (floating point, not modelled). The function returns nothing: the model gives the
  call of \<open>SendBid\<close> it made, \<open>None\<close> when the input is unsupported and no bid is
  sent.
\<close>

definition sendPreconfBid ::
  "(Transaction \<Rightarrow> error + 8 word list) \<Rightarrow> (Bid \<Rightarrow> error + 'm stream) \<Rightarrow>
     int64 \<Rightarrow> string \<Rightarrow> preconf_input \<Rightarrow> int64 \<Rightarrow> 'm SendBid_result option outcome option"
where
  "sendPreconfBid marshal grpc now amount input blockNumber =
     (let currentTime = now;
          decayStart = currentTime;
          decayEnd = currentTime + Milliseconds (36 * Second);
          bid = (\<lambda>payload.
            case SendBid marshal grpc payload amount blockNumber decayStart decayEnd of
              None \<Rightarrow> None
            | Some (Panics p) \<Rightarrow> Some (Panics p)
            | Some (Exits p) \<Rightarrow> Some (Exits p)
            | Some (Returns r) \<Rightarrow> Some (Returns (Some r)))
      in
      case input of
        InputString v \<Rightarrow> bid (StringSlice [TrimPrefix v ''0x''])
      | InputTransaction None \<Rightarrow> Some (Panics nil_dereference)
      | InputTransaction (Some v) \<Rightarrow> bid (TransactionSlice [Some v])
      | InputOther \<Rightarrow> Some (Returns None))"

section \<open>cmd: connecting and reconnecting\<close>

text \<open>
  The endpoint as the calls meet it: \<open>dial k\<close> is the result of the \<open>k\<close>-th call of
  \<open>NewGethClient\<close>, \<open>subscribe c j\<close> that of the \<open>j\<close>-th call of
  \<open>SubscribeNewHead\<close>, made on client \<open>c\<close>. The state counts the calls made and
  the seconds slept.
\<close>

record conn_state =
  dials :: nat
  subscriptions :: nat
  slept :: nat

text \<open>
  \<open>connectWSClient\<close>, lines 268-277: on a failed dial it sleeps 10 seconds and calls
  itself. It returns only a client and a nil error; while the dial fails it does not
  return (the recursion is not bounded by the code; the limit of the Go stack, reached
  after some ten million nested calls, is not modelled).
\<close>

partial_function (option) connectWSClient ::
  "(nat \<Rightarrow> error + 'c) \<Rightarrow> conn_state \<Rightarrow> (('c option \<times> error option) \<times> conn_state) option"
where
  "connectWSClient dial st =
     (case dial (dials st) of
        Inl err \<Rightarrow> connectWSClient dial (st\<lparr>dials := Suc (dials st), slept := slept st + 10\<rparr>)
      | Inr wsClient \<Rightarrow> Some ((Some wsClient, None), st\<lparr>dials := Suc (dials st)\<rparr>))"

text \<open>
  \<open>reconnectWSClient\<close>, lines 279-298: the loop from attempt \<open>i\<close> on, then
  \<open>log.Crit\<close>.
\<close>

function reconnect_loop ::
  "(nat \<Rightarrow> error + 'c) \<Rightarrow> ('c \<Rightarrow> nat \<Rightarrow> error + 's) \<Rightarrow> nat \<Rightarrow> conn_state \<Rightarrow>
     (('c \<times> 's) outcome \<times> conn_state) option"
where
  "reconnect_loop dial subscribe i st =
     (if i < 10 then
        (case connectWSClient dial st of
           None \<Rightarrow> None
         | Some ((_, Some err), st1) \<Rightarrow>
             reconnect_loop dial subscribe (Suc i) (st1\<lparr>slept := slept st1 + 5\<rparr>)
         | Some ((None, None), st1) \<Rightarrow> Some (Panics nil_dereference, st1)
         | Some ((Some wsClient, None), st1) \<Rightarrow>
             (let st2 = st1\<lparr>subscriptions := Suc (subscriptions st1)\<rparr> in
              case subscribe wsClient (subscriptions st1) of
                Inr sub \<Rightarrow> Some (Returns (wsClient, sub), st2)
              | Inl err \<Rightarrow>
                  reconnect_loop dial subscribe (Suc i) (st2\<lparr>slept := slept st2 + 5\<rparr>)))
      else Some (Exits ''failed to reconnect WebSocket client after retries'', st))"
  by pat_completeness auto
termination
  by (relation "measure (\<lambda>(dial, subscribe, i, st). 10 - i)") auto

definition reconnectWSClient ::
  "(nat \<Rightarrow> error + 'c) \<Rightarrow> ('c \<Rightarrow> nat \<Rightarrow> error + 's) \<Rightarrow> conn_state \<Rightarrow>
     (('c \<times> 's) outcome \<times> conn_state) option"
where
  "reconnectWSClient dial subscribe st = reconnect_loop dial subscribe 0 st"

section \<open>core/mevcommit and cmd: the key\<close>

definition HOLESKY_CHAIN_ID :: int where
  "HOLESKY_CHAIN_ID = 1700"

text \<open>The zero value \<open>AuthAcct{}\<close>.\<close>

definition zero_AuthAcct :: AuthAcct where
  "zero_AuthAcct = \<lparr>PrivateKey = None, PublicKey = None, Address = 0, Auth = None\<rparr>"

text \<open>
  \<open>AuthenticateAddress\<close>, contracts.go lines 436-474.
  \<open>bind.NewKeyedTransactorWithChainID\<close> fails only on a nil chain id, which the
  constant is not; the type assertion on the public key always holds.
\<close>

definition AuthenticateAddress :: "Libs \<Rightarrow> string \<Rightarrow> (AuthAcct \<times> error option) outcome" where
  "AuthenticateAddress lib privateKeyHex =
     (if privateKeyHex = [] then Returns (zero_AuthAcct, None)
      else
        case HexToECDSA lib privateKeyHex of
          Inl err \<Rightarrow> Exits ''Failed to load private key''
        | Inr privateKey \<Rightarrow>
            (let publicKeyECDSA = Public lib privateKey;
                 address = PubkeyToAddress lib publicKeyECDSA;
                 chainID = HOLESKY_CHAIN_ID;
                 auth = \<lparr>From = address, OptsChainID = chainID\<rparr>
             in Returns (\<lparr>PrivateKey = Some privateKey, PublicKey = Some publicKeyECDSA,
                          Address = address, Auth = Some auth\<rparr>, None)))"

text \<open>
  \<open>main\<close>, lines 133-161 of the command: the check of \<open>PRIVATE_KEY\<close> and the
  authentication.
\<close>

definition main_authenticate :: "Libs \<Rightarrow> string \<Rightarrow> AuthAcct outcome" where
  "main_authenticate lib privateKeyHex =
     (if privateKeyHex = [] then Exits ''PRIVATE_KEY environment variable is required''
      else
        case AuthenticateAddress lib privateKeyHex of
          Panics p \<Rightarrow> Panics p
        | Exits p \<Rightarrow> Exits p
        | Returns (_, Some err) \<Rightarrow> Exits ''Failed to authenticate private key:''
        | Returns (authAcct, None) \<Rightarrow> Returns authAcct)"

section \<open>cmd: one header\<close>

text \<open>What the loop body does that can be seen from outside, in order.\<close>

datatype event =
  LogInfo string
| LogWarn string
| LogError string
| CallSendBundle string Transaction uint64
| CallSendPreconfBid preconf_input int64

text \<open>
  The body of \<open>case header := <-headers\<close> in \<open>main\<close>, lines 212-242. \<open>built\<close>
  is the result of the call of \<open>SelfETHTransfer\<close>; \<open>Hash\<close> is the transaction
  hash as a string; \<open>SendBundle\<close> is the relay call (HTTP), of which the body reads
  the error only; \<open>bid\<close> tells whether \<open>sendPreconfBid\<close> came back
  (\<open>Some (Returns ())\<close>), panicked, or never returned. The accessors in the
  \<open>log.Info\<close> call dereference \<open>signedTx\<close>. The result is the events of the
  iteration, when it reaches its end or its \<open>continue\<close>.
\<close>

definition main_header ::
  "(Transaction \<Rightarrow> string) \<Rightarrow> (string \<Rightarrow> Transaction \<Rightarrow> uint64 \<Rightarrow> error option) \<Rightarrow>
   (preconf_input \<Rightarrow> int64 \<Rightarrow> unit outcome option) \<Rightarrow> bool \<Rightarrow> string \<Rightarrow>
   (Transaction option \<times> uint64 \<times> error option) outcome \<Rightarrow> event list outcome option"
where
  "main_header Hash SendBundle bid usePayload rpcEndpoint built =
     (case built of
        Panics p \<Rightarrow> Some (Panics p)
      | Exits p \<Rightarrow> Some (Exits p)
      | Returns (signedTx, blockNumber, err) \<Rightarrow>
     (case signedTx of
        None \<Rightarrow> Some (Panics nil_dereference)
      | Some tx \<Rightarrow>
     (let evs = [LogInfo ''new block generated'', LogInfo ''Transaction fee values''];
          finish = (\<lambda>evs err.
            case err of
              Some e \<Rightarrow> Some (Returns (evs @ [LogWarn ''failed to execute blob tx'']))
            | None \<Rightarrow> Some (Returns evs))
      in
      if usePayload then
        (case bid (InputTransaction (Some tx)) blockNumber of
           None \<Rightarrow> None
         | Some (Panics p) \<Rightarrow> Some (Panics p)
         | Some (Exits p) \<Rightarrow> Some (Exits p)
         | Some (Returns _) \<Rightarrow>
             finish (evs @ [CallSendPreconfBid (InputTransaction (Some tx)) blockNumber]) err)
      else
        (let err = SendBundle rpcEndpoint tx blockNumber;
             evs = evs @ [CallSendBundle rpcEndpoint tx blockNumber];
             evs = (case err of
                      Some e \<Rightarrow> evs @ [LogError ''Failed to send transaction'']
                    | None \<Rightarrow> evs)
         in
         case bid (InputString (Hash tx)) blockNumber of
           None \<Rightarrow> None
         | Some (Panics p) \<Rightarrow> Some (Panics p)
         | Some (Exits p) \<Rightarrow> Some (Exits p)
         | Some (Returns _) \<Rightarrow>
             finish (evs @ [CallSendPreconfBid (InputString (Hash tx)) blockNumber]) err))))"

text \<open>Sample inputs: a node at block 7 with base fee 100, an account, a signer.\<close>

definition sample_header :: Header where
  "sample_header = \<lparr>Number = 7, BaseFee = Some 100, ExcessBlobGas = Some 0, BlobGasUsed = Some 0\<rparr>"

definition sample_client :: Client where
  "sample_client = \<lparr>PendingNonceAt = (\<lambda>_. Inr 5), HeaderByNumber = Inr sample_header,
                     NetworkID = Inr 17000\<rparr>"

definition sample_acct :: AuthAcct where
  "sample_acct = \<lparr>PrivateKey = Some 11, PublicKey = Some (3, 4), Address = 42,
                   Auth = Some \<lparr>From = 42, OptsChainID = 1700\<rparr>\<rparr>"

definition sample_sign :: signer where
  "sample_sign k c tx = Inr (27, 1, 1)"

text \<open>
  Sample libraries: a fee market whose minimum blob fee is 1000, a KZG service that
  succeeds, and one whose every commitment and proof fails, returning the zero value
  beside the error.
\<close>

definition sample_lib :: Libs where
  "sample_lib = \<lparr>Sign = sample_sign, HexToECDSA = (\<lambda>s. Inr 11), Public = (\<lambda>k. (3, 4)),
     PubkeyToAddress = (\<lambda>p. 42),
     CalcExcessBlobGas = (\<lambda>e u. if e + u < 393216 then 0 else e + u - 393216),
     CalcBlobFee = (\<lambda>e. 1000),
     BlobToCommitment = (\<lambda>blob. (take 1 blob, None)),
     ComputeBlobProof = (\<lambda>blob c. (rev c, None)),
     CalcBlobHashV1 = (\<lambda>c. 1 # c),
     randBlob = (\<lambda>i. [of_nat i, 7])\<rparr>"

definition failing_kzg_lib :: Libs where
  "failing_kzg_lib = sample_lib\<lparr>
     BlobToCommitment := (\<lambda>blob. ([], Some (Error ''bad blob''))),
     ComputeBlobProof := (\<lambda>blob c. ([], Some (Error ''bad commitment'')))\<rparr>"

text \<open>
  Sample bidding service: an encoding of transactions, a stream of two commitments that
  ends, one that breaks after the first, one that never ends, and a bid for one hash.
\<close>

definition sample_marshal :: "Transaction \<Rightarrow> error + 8 word list" where
  "sample_marshal tx = Inr [2, word_of_nat (unat (Nonce tx))]"

definition ending_stream :: "string stream" where
  "ending_stream k = (if k = 0 then Msg ''c0'' else if k = 1 then Msg ''c1'' else EOF)"

definition broken_stream :: "string stream" where
  "broken_stream k = (if k = 0 then Msg ''c0'' else RecvError (Error ''reset''))"

definition endless_stream :: "string stream" where
  "endless_stream k = Msg ''c''"

definition sample_grpc :: "Bid \<Rightarrow> error + string stream" where
  "sample_grpc req = Inr ending_stream"

definition sample_bid :: Bid where
  "sample_bid = \<lparr>Amount = ''1'', BlockNumber = 8, DecayStartTimestamp = 0,
                  DecayEndTimestamp = 36000, TxHashes = [''ab''], RawTransactions = []\<rparr>"

text \<open>
  A signed transfer with a given nonce, an encoding that fails on nonce 5, and a
  service that refuses the call.
\<close>

definition sample_tx :: "uint64 \<Rightarrow> Transaction" where
  "sample_tx n = \<lparr>Type = DynamicFeeTxType, ChainID = Some 17000, Nonce = n,
                   GasTipCap = 0, GasFeeCap = 400, Gas = 500000, To = Some 42,
                   Value = 1000000000000000, BlobFeeCap = None, BlobHashes = [],
                   Sidecar = None, Signature = Some (27, 1, 1)\<rparr>"

definition picky_marshal :: "Transaction \<Rightarrow> error + 8 word list" where
  "picky_marshal tx = (if Nonce tx = 5 then Inl (Error ''rlp: bad'') else sample_marshal tx)"

definition refusing_grpc :: "Bid \<Rightarrow> error + string stream" where
  "refusing_grpc req = Inl (Error ''unavailable'')"

text \<open>
  Sample endpoints: one that refuses every dial, one that accepts every third dial; a
  subscription that succeeds at the second call, and one that always fails.
\<close>

definition never_dial :: "nat \<Rightarrow> error + nat" where
  "never_dial k = Inl (Error ''connection refused'')"

definition sample_dial :: "nat \<Rightarrow> error + nat" where
  "sample_dial k = (if k mod 3 = 2 then Inr k else Inl (Error ''connection refused''))"

definition sample_subscribe :: "nat \<Rightarrow> nat \<Rightarrow> error + nat" where
  "sample_subscribe c j = (if j = 1 then Inr (100 + c) else Inl (Error ''subscription failed''))"

definition failing_subscribe :: "nat \<Rightarrow> nat \<Rightarrow> error + nat" where
  "failing_subscribe c j = Inl (Error ''subscription failed'')"

definition fresh :: conn_state where
  "fresh = \<lparr>dials = 0, subscriptions = 0, slept = 0\<rparr>"

section \<open>Fee policy of the self transfer\<close>

text \<open>
  C2, as amended. When the nonce, header and chain-id reads succeed (the header carrying
  a base fee, the account a key the signer accepts), both variants of
  \<open>SelfETHTransfer\<close> return a transaction whose nonce is the pending nonce read and
  whose fee cap is 4 times the base fee. The tip cap is 2 times the base fee in the
  variant of lines 243-292 and the constant 0 in the variant of lines 28-77. In both,
  for a base fee that is not negative, fee cap \<open>\<ge>\<close> tip cap \<open>\<ge>\<close> 0.
\<close>

theorem SelfETHTransfer_fee_policy:
  assumes "PendingNonceAt client (Address acct) = Inr nonce"
    and "HeaderByNumber client = Inr header"
    and "BaseFee header = Some baseFee"
    and "NetworkID client = Inr chainID"
    and "PrivateKey acct = Some k"
    and "\<forall>tx. \<exists>sig. sign k chainID tx = Inr sig"
  shows "\<exists>ta tb.
           built_tx (SelfETHTransfer_a sign client acct val offset) = Some ta
         \<and> built_tx (SelfETHTransfer_b sign client acct val offset) = Some tb
         \<and> Nonce ta = nonce \<and> Nonce tb = nonce
         \<and> GasFeeCap ta = 4 * baseFee \<and> GasFeeCap tb = 4 * baseFee
         \<and> GasTipCap ta = 0 \<and> GasTipCap tb = 2 * baseFee
         \<and> (0 \<le> baseFee \<longrightarrow>
               0 \<le> GasTipCap ta \<and> GasTipCap ta \<le> GasFeeCap ta
             \<and> 0 \<le> GasTipCap tb \<and> GasTipCap tb \<le> GasFeeCap tb)"
proof -
  define ta where "ta = \<lparr>Type = DynamicFeeTxType, ChainID = None, Nonce = nonce,
                 GasTipCap = 0, GasFeeCap = baseFee * 2 * 2, Gas = 500000,
                 To = Some (Address acct), Value = val,
                 BlobFeeCap = None, BlobHashes = [], Sidecar = None, Signature = None\<rparr>"
  define tb where "tb = \<lparr>Type = DynamicFeeTxType, ChainID = None, Nonce = nonce,
                 GasTipCap = baseFee * 2, GasFeeCap = baseFee * 2 * 2, Gas = 500000,
                 To = Some (Address acct), Value = val,
                 BlobFeeCap = None, BlobHashes = [], Sidecar = None, Signature = None\<rparr>"
  from assms(6) obtain sa sb where s: "sign k chainID ta = Inr sa" "sign k chainID tb = Inr sb"
    by blast
  have a: "built_tx (SelfETHTransfer_a sign client acct val offset) =
             Some (ta\<lparr>ChainID := Some chainID, Signature := Some sa\<rparr>)"
    using assms(1-5) s(1)
    by (simp add: built_tx_def SelfETHTransfer_a_def SignTx_def Let_def ta_def)
  have b: "built_tx (SelfETHTransfer_b sign client acct val offset) =
             Some (tb\<lparr>ChainID := Some chainID, Signature := Some sb\<rparr>)"
    using assms(1-5) s(2)
    by (simp add: built_tx_def SelfETHTransfer_b_def SignTx_def Let_def tb_def)
  show ?thesis unfolding a b by (simp add: ta_def tb_def)
qed

theorem SelfETHTransfer_fee_policy_witness:
  "\<exists>ta tb.
     built_tx (SelfETHTransfer_a sample_sign sample_client sample_acct 1000000000000000 1) = Some ta
   \<and> built_tx (SelfETHTransfer_b sample_sign sample_client sample_acct 1000000000000000 1) = Some tb
   \<and> Nonce ta = 5 \<and> Nonce tb = 5
   \<and> GasFeeCap ta = 400 \<and> GasFeeCap tb = 400
   \<and> GasTipCap ta = 0 \<and> GasTipCap tb = 200"
proof -
  have "PendingNonceAt sample_client (Address sample_acct) = Inr 5"
    and "HeaderByNumber sample_client = Inr sample_header"
    and "BaseFee sample_header = Some 100"
    and "NetworkID sample_client = Inr 17000"
    and "PrivateKey sample_acct = Some 11"
    and "\<forall>tx. \<exists>sig. sample_sign 11 17000 tx = Inr sig"
    by (simp_all add: sample_client_def sample_acct_def sample_header_def sample_sign_def)
  from SelfETHTransfer_fee_policy
         [where sign = sample_sign and val = 1000000000000000 and offset = 1, OF this]
  obtain ta tb where
    "built_tx (SelfETHTransfer_a sample_sign sample_client sample_acct 1000000000000000 1) = Some ta"
    "built_tx (SelfETHTransfer_b sample_sign sample_client sample_acct 1000000000000000 1) = Some tb"
    "Nonce ta = 5" "Nonce tb = 5" "GasFeeCap ta = 400" "GasFeeCap tb = 400"
    "GasTipCap ta = 0" "GasTipCap tb = 200"
    by auto
  then show ?thesis by simp
qed

text \<open>
  C2 as stated fails on the variant of lines 28-77: at base fee 100 the tip cap of the
  transaction is 0, not 200.
\<close>

theorem SelfETHTransfer_tip_counterexample:
  "HeaderByNumber sample_client = Inr sample_header \<and> BaseFee sample_header = Some 100
   \<and> map_option GasTipCap
        (built_tx (SelfETHTransfer_a sample_sign sample_client sample_acct 1000000000000000 1))
      = Some 0
   \<and> map_option GasTipCap
        (built_tx (SelfETHTransfer_a sample_sign sample_client sample_acct 1000000000000000 1))
      \<noteq> Some (2 * 100)"
  by (simp add: SelfETHTransfer_a_def SignTx_def built_tx_def Let_def
      sample_client_def sample_acct_def sample_header_def sample_sign_def)

section \<open>A failed construction in the header loop\<close>

text \<open>
  C1. The claim is that a failed construction is logged and the block skipped, nothing
  of the failed result being read before the error check. The code reads the result
  first: when the nonce read fails, either variant of \<open>SelfETHTransfer\<close> returns a nil
  transaction with the error, and the loop body dereferences it in its \<open>log.Info\<close>
  call, before the check of \<open>err\<close> at lines 238-242; the process panics instead of
  skipping the block. The same holds of every result that carries an error and no
  transaction.
\<close>

theorem main_header_construction_failure:
  "main_header Hash SendBundle bid usePayload rpcEndpoint
     (SelfETHTransfer_a sign
        (sample_client\<lparr>PendingNonceAt := (\<lambda>_. Inl (Error ''connection refused''))\<rparr>)
        sample_acct 1000000000000000 1) = Some (Panics nil_dereference)
 \<and> main_header Hash SendBundle bid usePayload rpcEndpoint
     (SelfETHTransfer_b sign
        (sample_client\<lparr>PendingNonceAt := (\<lambda>_. Inl (Error ''connection refused''))\<rparr>)
        sample_acct 1000000000000000 1) = Some (Panics nil_dereference)
 \<and> main_header Hash SendBundle bid usePayload rpcEndpoint (Returns (None, blockNumber, Some e))
     = Some (Panics nil_dereference)"
  by (simp add: main_header_def SelfETHTransfer_a_def SelfETHTransfer_b_def sample_client_def)

section \<open>Blob transactions\<close>

lemma bump_above: "0 \<le> (m::int) \<Longrightarrow> m < (m + 1) * 110 div 100"
proof -
  assume "0 \<le> m"
  have "(m + 1) * 110 = 100 * m + (10 * m + 110)" by simp
  moreover have "(100 * m + (10 * m + 110)) div 100 = m + (10 * m + 110) div 100" by simp
  moreover have "1 \<le> (10 * m + 110) div 100" using \<open>0 \<le> m\<close> by simp
  ultimately show ?thesis by simp
qed

lemma bump_ten_percent: "110 * (m::int) \<le> 100 * ((m + 1) * 110 div 100)"
proof -
  have "100 * ((m + 1) * 110 div 100) = (m + 1) * 110 - (m + 1) * 110 mod 100"
    by (simp add: mult_div_mod_eq [symmetric] algebra_simps)
  moreover have "(m + 1) * 110 mod 100 < 100" by simp
  ultimately show ?thesis by simp
qed

lemma MustFromBig_in_range: "0 \<le> b \<Longrightarrow> b < 2 ^ 256 \<Longrightarrow> MustFromBig b = Returns b"
  by (simp add: MustFromBig_def)

lemma makeSidecar_loop_length:
  "length (fst (makeSidecar_loop lib blobs cs ps)) = length cs + length blobs
 \<and> length (snd (makeSidecar_loop lib blobs cs ps)) = length ps + length blobs"
  by (induction blobs arbitrary: cs ps) (simp_all add: Let_def)

lemma makeSidecar_counts:
  "Blobs (makeSidecar lib blobs) = blobs
 \<and> length (Commitments (makeSidecar lib blobs)) = length blobs
 \<and> length (Proofs (makeSidecar lib blobs)) = length blobs"
  using makeSidecar_loop_length [of lib blobs "[]" "[]"]
  by (cases "makeSidecar_loop lib blobs [] []") (simp add: makeSidecar_def)

lemma without_kzg_errors_fields:
  "Sign (without_kzg_errors lib) = Sign lib"
  "Public (without_kzg_errors lib) = Public lib"
  "PubkeyToAddress (without_kzg_errors lib) = PubkeyToAddress lib"
  "CalcExcessBlobGas (without_kzg_errors lib) = CalcExcessBlobGas lib"
  "CalcBlobFee (without_kzg_errors lib) = CalcBlobFee lib"
  "CalcBlobHashV1 (without_kzg_errors lib) = CalcBlobHashV1 lib"
  "randBlob (without_kzg_errors lib) = randBlob lib"
  by (simp_all add: without_kzg_errors_def)

lemma makeSidecar_loop_without_kzg_errors:
  "makeSidecar_loop (without_kzg_errors lib) blobs cs ps = makeSidecar_loop lib blobs cs ps"
  by (induction blobs arbitrary: cs ps) (simp_all add: Let_def without_kzg_errors_def)

lemma makeSidecar_without_kzg_errors:
  "makeSidecar (without_kzg_errors lib) blobs = makeSidecar lib blobs"
  by (simp add: makeSidecar_def makeSidecar_loop_without_kzg_errors)

lemma ExecuteBlobTransaction_ok:
  assumes "PrivateKey acct = Some k"
    and "PendingNonceAt client (Address acct) = Inr nonce"
    and "HeaderByNumber client = Inr header"
    and "NetworkID client = Inr chainID"
    and "ExcessBlobGas header = Some e"
    and "BlobGasUsed header = Some u"
    and "BaseFee header = Some baseFee"
    and "0 \<le> n"
    and "0 \<le> chainID" and "chainID < 2 ^ 256"
    and "0 \<le> baseFee" and "4 * baseFee < 2 ^ 256"
    and "m = CalcBlobFee lib (CalcExcessBlobGas lib e u)"
    and "0 \<le> m" and "(m + 1) * 110 div 100 < 2 ^ 256"
    and "\<forall>tx. \<exists>sig. Sign lib k chainID tx = Inr sig"
  shows "\<exists>tx. built_tx (ExecuteBlobTransaction lib client acct n offset) = Some tx
            \<and> Nonce tx = nonce \<and> GasTipCap tx = 0 \<and> GasFeeCap tx = 4 * baseFee
            \<and> BlobFeeCap tx = Some ((m + 1) * 110 div 100)
            \<and> Sidecar tx = Some (makeSidecar lib (map (randBlob lib) [0..<nat n]))
            \<and> BlobHashes tx =
                SidecarBlobHashes lib (makeSidecar lib (map (randBlob lib) [0..<nat n]))"
proof -
  define sc where "sc = makeSidecar lib (map (randBlob lib) [0..<nat n])"
  define tx0 where "tx0 = \<lparr>Type = BlobTxType, ChainID = Some chainID, Nonce = nonce,
                 GasTipCap = 0, GasFeeCap = baseFee * 2 * 2, Gas = 500000,
                 To = Some (PubkeyToAddress lib (Public lib k)), Value = 0,
                 BlobFeeCap = Some ((m + 1) * 110 div 100),
                 BlobHashes = SidecarBlobHashes lib sc,
                 Sidecar = Some sc, Signature = None\<rparr>"
  from assms(16) obtain sig where s: "Sign lib k chainID tx0 = Inr sig" by blast
  have c: "MustFromBig chainID = Returns chainID"
    using assms(9,10) by (rule MustFromBig_in_range)
  have f: "MustFromBig (baseFee * 2 * 2) = Returns (baseFee * 2 * 2)"
    using assms(11,12) by (intro MustFromBig_in_range) simp_all
  have "0 \<le> (m + 1) * 110 div 100" using assms(14) by simp
  then have b: "MustFromBig ((CalcBlobFee lib (CalcExcessBlobGas lib e u) + 1) * 110 div 100)
                = Returns ((m + 1) * 110 div 100)"
    using assms(13,15) by (simp add: MustFromBig_in_range)
  have "ExecuteBlobTransaction lib client acct n offset =
          Returns (Some (tx0\<lparr>ChainID := Some chainID, Signature := Some sig\<rparr>),
                   Uint64 (Number header) + offset, None)"
  proof -
    have nn: "(n < 0) = False" using assms(8) by simp
    have "ExecuteBlobTransaction lib client acct n offset =
          (case SignTx (Sign lib) tx0 chainID (Some k) of
             Panics p \<Rightarrow> Panics p
           | Exits p \<Rightarrow> Exits p
           | Returns (_, Some err) \<Rightarrow> Returns (None, 0, Some err)
           | Returns (signedTx, None) \<Rightarrow>
               Returns (signedTx, Uint64 (Number header) + offset, None))"
      by (simp only: ExecuteBlobTransaction_def Let_def assms(1-7) nn if_False option.case
          sum.case prod.case outcome.case randBlobs_def c f b tx0_def sc_def)
    then show ?thesis using s by (simp add: SignTx_def)
  qed
  then show ?thesis
    by (simp add: built_tx_def tx0_def sc_def)
qed

text \<open>
  C3, as amended. A failure of commitment or opening-proof generation does not fail
  \<open>ExecuteBlobTransaction\<close>: \<open>makeSidecar\<close> discards both errors and keeps the value
  returned beside each, so the outcome of the operation is the one it would have had
  with the errors absent, and the sidecar has one commitment and one proof per blob.
\<close>

theorem ExecuteBlobTransaction_ignores_kzg_errors:
  "ExecuteBlobTransaction (without_kzg_errors lib) client acct n offset =
     ExecuteBlobTransaction lib client acct n offset
 \<and> makeSidecar (without_kzg_errors lib) blobs = makeSidecar lib blobs
 \<and> length (Commitments (makeSidecar lib blobs)) = length blobs
 \<and> length (Proofs (makeSidecar lib blobs)) = length blobs"
proof -
  have "ExecuteBlobTransaction (without_kzg_errors lib) client acct n offset =
        ExecuteBlobTransaction lib client acct n offset"
    by (simp only: ExecuteBlobTransaction_def makeSidecar_without_kzg_errors randBlobs_def
        SidecarBlobHashes_def without_kzg_errors_fields)
  then show ?thesis
    by (simp add: makeSidecar_without_kzg_errors makeSidecar_counts)
qed

text \<open>
  C3 as stated fails: with a KZG service whose every commitment and proof fails, the
  operation still returns a transaction for two blobs, carrying the two zero-valued
  commitments.
\<close>

lemma failing_sidecar:
  "makeSidecar failing_kzg_lib (map (randBlob failing_kzg_lib) [0..<nat 2]) =
     \<lparr>Blobs = [[0, 7], [1, 7]], Commitments = [[], []], Proofs = [[], []]\<rparr>"
proof -
  have "[0..<nat 2] = [0, 1]" by (simp add: upt_conv_Cons)
  then show ?thesis
    by (simp add: makeSidecar_def failing_kzg_lib_def sample_lib_def)
qed

theorem ExecuteBlobTransaction_kzg_failure_counterexample:
  "snd (BlobToCommitment failing_kzg_lib (randBlob failing_kzg_lib 0)) = Some (Error ''bad blob'')
 \<and> snd (ComputeBlobProof failing_kzg_lib (randBlob failing_kzg_lib 0) []) = Some (Error ''bad commitment'')
 \<and> built_tx (ExecuteBlobTransaction failing_kzg_lib sample_client sample_acct 2 1) \<noteq> None
 \<and> map_option (map_option Commitments \<circ> Sidecar)
       (built_tx (ExecuteBlobTransaction failing_kzg_lib sample_client sample_acct 2 1))
     = Some (Some [[], []])"
proof -
  have "PrivateKey sample_acct = Some 11"
    and "PendingNonceAt sample_client (Address sample_acct) = Inr 5"
    and "HeaderByNumber sample_client = Inr sample_header"
    and "NetworkID sample_client = Inr 17000"
    and "ExcessBlobGas sample_header = Some 0"
    and "BlobGasUsed sample_header = Some 0"
    and "BaseFee sample_header = Some 100"
    and "(0::int) \<le> 2"
    and "(0::int) \<le> 17000" and "(17000::int) < 2 ^ 256"
    and "(0::int) \<le> 100" and "4 * (100::int) < 2 ^ 256"
    and "1000 = CalcBlobFee failing_kzg_lib (CalcExcessBlobGas failing_kzg_lib 0 0)"
    and "(0::int) \<le> 1000" and "((1000::int) + 1) * 110 div 100 < 2 ^ 256"
    and "\<forall>tx. \<exists>sig. Sign failing_kzg_lib 11 17000 tx = Inr sig"
    by (simp_all add: sample_client_def sample_acct_def sample_header_def sample_sign_def
        sample_lib_def failing_kzg_lib_def)
  from ExecuteBlobTransaction_ok [where lib = failing_kzg_lib and offset = 1, OF this]
  obtain tx where tx:
    "built_tx (ExecuteBlobTransaction failing_kzg_lib sample_client sample_acct 2 1) = Some tx"
    "Sidecar tx = Some (makeSidecar failing_kzg_lib (map (randBlob failing_kzg_lib) [0..<nat 2]))"
    by blast
  have p1: "snd (BlobToCommitment failing_kzg_lib (randBlob failing_kzg_lib 0))
              = Some (Error ''bad blob'')"
    and p2: "snd (ComputeBlobProof failing_kzg_lib (randBlob failing_kzg_lib 0) [])
              = Some (Error ''bad commitment'')"
    by (simp_all add: failing_kzg_lib_def sample_lib_def)
  have p3: "built_tx (ExecuteBlobTransaction failing_kzg_lib sample_client sample_acct 2 1) \<noteq> None
     \<and> map_option (map_option Commitments \<circ> Sidecar)
         (built_tx (ExecuteBlobTransaction failing_kzg_lib sample_client sample_acct 2 1))
       = Some (Some [[], []])"
    using tx(1) tx(2) [unfolded failing_sidecar] by simp
  from p1 p2 p3 show ?thesis by blast
qed

text \<open>
  C6. For a blob count \<open>n \<ge> 1\<close>, when the key is present, the three reads succeed with
  a header that carries the blob-gas fields and a base fee, the 256-bit conversions are
  in range and the signer accepts, \<open>ExecuteBlobTransaction\<close> returns a transaction
  carrying exactly \<open>n\<close> blobs, \<open>n\<close> versioned blob hashes, \<open>n\<close> commitments and
  \<open>n\<close> proofs.
\<close>

theorem ExecuteBlobTransaction_blob_counts:
  assumes "PrivateKey acct = Some k"
    and "PendingNonceAt client (Address acct) = Inr nonce"
    and "HeaderByNumber client = Inr header"
    and "NetworkID client = Inr chainID"
    and "ExcessBlobGas header = Some e"
    and "BlobGasUsed header = Some u"
    and "BaseFee header = Some baseFee"
    and "1 \<le> n"
    and "0 \<le> chainID" and "chainID < 2 ^ 256"
    and "0 \<le> baseFee" and "4 * baseFee < 2 ^ 256"
    and "m = CalcBlobFee lib (CalcExcessBlobGas lib e u)"
    and "0 \<le> m" and "(m + 1) * 110 div 100 < 2 ^ 256"
    and "\<forall>tx. \<exists>sig. Sign lib k chainID tx = Inr sig"
  shows "\<exists>tx sc. built_tx (ExecuteBlobTransaction lib client acct n offset) = Some tx
            \<and> Sidecar tx = Some sc
            \<and> length (Blobs sc) = nat n
            \<and> length (BlobHashes tx) = nat n
            \<and> length (Commitments sc) = nat n
            \<and> length (Proofs sc) = nat n"
proof -
  from assms(8) have "0 \<le> n" by simp
  from ExecuteBlobTransaction_ok [where lib = lib, OF assms(1-7) this assms(9-16)]
  obtain tx where tx: "built_tx (ExecuteBlobTransaction lib client acct n offset) = Some tx"
    "Sidecar tx = Some (makeSidecar lib (map (randBlob lib) [0..<nat n]))"
    "BlobHashes tx = SidecarBlobHashes lib (makeSidecar lib (map (randBlob lib) [0..<nat n]))"
    by blast
  show ?thesis
    using tx makeSidecar_counts [of lib "map (randBlob lib) [0..<nat n]"]
    by (simp add: SidecarBlobHashes_def)
qed

theorem ExecuteBlobTransaction_blob_counts_witness:
  "\<exists>tx sc. built_tx (ExecuteBlobTransaction sample_lib sample_client sample_acct 3 1) = Some tx
            \<and> Sidecar tx = Some sc
            \<and> length (Blobs sc) = 3
            \<and> length (BlobHashes tx) = 3
            \<and> length (Commitments sc) = 3
            \<and> length (Proofs sc) = 3"
proof -
  have "PrivateKey sample_acct = Some 11"
    and "PendingNonceAt sample_client (Address sample_acct) = Inr 5"
    and "HeaderByNumber sample_client = Inr sample_header"
    and "NetworkID sample_client = Inr 17000"
    and "ExcessBlobGas sample_header = Some 0"
    and "BlobGasUsed sample_header = Some 0"
    and "BaseFee sample_header = Some 100"
    and "(1::int) \<le> 3"
    and "(0::int) \<le> 17000" and "(17000::int) < 2 ^ 256"
    and "(0::int) \<le> 100" and "4 * (100::int) < 2 ^ 256"
    and "1000 = CalcBlobFee sample_lib (CalcExcessBlobGas sample_lib 0 0)"
    and "(0::int) \<le> 1000" and "((1000::int) + 1) * 110 div 100 < 2 ^ 256"
    and "\<forall>tx. \<exists>sig. Sign sample_lib 11 17000 tx = Inr sig"
    by (simp_all add: sample_client_def sample_acct_def sample_header_def sample_sign_def
        sample_lib_def)
  from ExecuteBlobTransaction_blob_counts [where lib = sample_lib and offset = 1, OF this]
  show ?thesis by simp
qed

text \<open>
  C7. For a network minimum blob fee \<open>m \<ge> 0\<close>, the blob fee cap of the transaction
  that \<open>ExecuteBlobTransaction\<close> returns is \<open>(m + 1) * 110 div 100\<close>; it is strictly
  greater than \<open>m\<close> and at least \<open>m\<close> plus 10 percent; for \<open>m = 1000\<close> it is at
  least 1100.
\<close>

theorem ExecuteBlobTransaction_blob_fee_cap:
  assumes "PrivateKey acct = Some k"
    and "PendingNonceAt client (Address acct) = Inr nonce"
    and "HeaderByNumber client = Inr header"
    and "NetworkID client = Inr chainID"
    and "ExcessBlobGas header = Some e"
    and "BlobGasUsed header = Some u"
    and "BaseFee header = Some baseFee"
    and "0 \<le> n"
    and "0 \<le> chainID" and "chainID < 2 ^ 256"
    and "0 \<le> baseFee" and "4 * baseFee < 2 ^ 256"
    and "m = CalcBlobFee lib (CalcExcessBlobGas lib e u)"
    and "0 \<le> m" and "(m + 1) * 110 div 100 < 2 ^ 256"
    and "\<forall>tx. \<exists>sig. Sign lib k chainID tx = Inr sig"
  shows "\<exists>tx cap. built_tx (ExecuteBlobTransaction lib client acct n offset) = Some tx
            \<and> BlobFeeCap tx = Some cap
            \<and> cap = (m + 1) * 110 div 100
            \<and> m < cap
            \<and> 110 * m \<le> 100 * cap
            \<and> (m = 1000 \<longrightarrow> 1100 \<le> cap)"
proof -
  from ExecuteBlobTransaction_ok [where lib = lib, OF assms]
  obtain tx where tx: "built_tx (ExecuteBlobTransaction lib client acct n offset) = Some tx"
    "BlobFeeCap tx = Some ((m + 1) * 110 div 100)"
    by blast
  have "m < (m + 1) * 110 div 100" using assms(14) by (rule bump_above)
  moreover have "110 * m \<le> 100 * ((m + 1) * 110 div 100)" by (rule bump_ten_percent)
  moreover have "m = 1000 \<longrightarrow> 1100 \<le> (m + 1) * 110 div 100" by simp
  ultimately show ?thesis using tx by simp
qed

theorem ExecuteBlobTransaction_blob_fee_cap_witness:
  "\<exists>tx. built_tx (ExecuteBlobTransaction sample_lib sample_client sample_acct 3 1) = Some tx
        \<and> BlobFeeCap tx = Some 1101"
proof -
  have "PrivateKey sample_acct = Some 11"
    and "PendingNonceAt sample_client (Address sample_acct) = Inr 5"
    and "HeaderByNumber sample_client = Inr sample_header"
    and "NetworkID sample_client = Inr 17000"
    and "ExcessBlobGas sample_header = Some 0"
    and "BlobGasUsed sample_header = Some 0"
    and "BaseFee sample_header = Some 100"
    and "(0::int) \<le> 3"
    and "(0::int) \<le> 17000" and "(17000::int) < 2 ^ 256"
    and "(0::int) \<le> 100" and "4 * (100::int) < 2 ^ 256"
    and "1000 = CalcBlobFee sample_lib (CalcExcessBlobGas sample_lib 0 0)"
    and "(0::int) \<le> 1000" and "((1000::int) + 1) * 110 div 100 < 2 ^ 256"
    and "\<forall>tx. \<exists>sig. Sign sample_lib 11 17000 tx = Inr sig"
    by (simp_all add: sample_client_def sample_acct_def sample_header_def sample_sign_def
        sample_lib_def)
  from ExecuteBlobTransaction_blob_fee_cap [where lib = sample_lib and offset = 1, OF this]
  show ?thesis by simp
qed


section \<open>Sending a bid\<close>

lemma marshal_loop_length:
  "marshal_loop marshal v acc = Returns (Inr raws) \<Longrightarrow> length raws = length acc + length v"
proof (induction v arbitrary: acc)
  case Nil
  then show ?case by simp
next
  case (Cons a v)
  then show ?case
    by (cases a) (auto split: sum.splits)
qed

lemma recv_loop_msgs:
  "\<forall>i<length ms. response (k + i) = Msg (ms ! i) \<Longrightarrow>
     recv_loop response k acc = recv_loop response (k + length ms) (acc @ ms)"
proof (induction ms arbitrary: k acc)
  case Nil
  then show ?case by simp
next
  case (Cons m ms)
  from Cons.prems have h: "response k = Msg m" by force
  from Cons.prems have "\<forall>i<length ms. response (Suc k + i) = Msg (ms ! i)" by force
  from Cons.IH [OF this, of "acc @ [m]"] h show ?case
    by (subst recv_loop.simps) simp
qed

lemma recv_loop_EOF:
  "response k = EOF \<Longrightarrow> recv_loop response k acc = Some (Inr acc, Suc k)"
  by (subst recv_loop.simps) simp

lemma recv_loop_RecvError:
  "response k = RecvError e \<Longrightarrow>
     recv_loop response k acc = Some (Inl (Errorf_w ''failed to send bid: '' e), Suc k)"
  by (subst recv_loop.simps) simp

lemma recv_loop_returns_end:
  assumes "recv_loop response k acc = Some y"
  shows "\<exists>j. \<forall>m. response j \<noteq> Msg m"
proof (rule recv_loop.raw_induct
    [where P = "\<lambda>response k acc y. \<exists>j. \<forall>m. response j \<noteq> Msg m", OF _ assms])
  fix f and response :: "'a stream" and k responses y
  assume IH: "\<And>response k responses y. f response k responses = Some y \<Longrightarrow>
                \<exists>j. \<forall>m. response j \<noteq> Msg m"
    and step: "(case response k of
                  Msg msg \<Rightarrow> f response (Suc k) (responses @ [msg])
                | EOF \<Rightarrow> Some (Inr responses, Suc k)
                | RecvError err \<Rightarrow> Some (Inl (Errorf_w ''failed to send bid: '' err), Suc k))
               = Some y"
  show "\<exists>j. \<forall>m. response j \<noteq> Msg m"
  proof (cases "response k")
    case (Msg m)
    with step have "f response (Suc k) (responses @ [m]) = Some y" by simp
    then show ?thesis by (rule IH)
  next
    case EOF
    then have "\<forall>m. response k \<noteq> Msg m" by simp
    then show ?thesis ..
  next
    case (RecvError e)
    then have "\<forall>m. response k \<noteq> Msg m" by simp
    then show ?thesis ..
  qed
qed

lemma recv_loop_endless:
  assumes "\<forall>i. \<exists>m. response i = Msg m"
  shows "recv_loop response k acc = None"
proof (cases "recv_loop response k acc")
  case None
  then show ?thesis .
next
  case (Some y)
  from recv_loop_returns_end [OF this] assms show ?thesis by metis
qed


lemma SendBid_request_StringSlice:
  "SendBid_request marshal (StringSlice v) amount bn ds de =
     Returns (Inr \<lparr>Amount = amount, BlockNumber = bn, DecayStartTimestamp = ds,
                   DecayEndTimestamp = de,
                   TxHashes = map (\<lambda>hash. TrimPrefix hash ''0x'') v, RawTransactions = []\<rparr>)"
  by (cases v) (simp_all add: SendBid_request_def)

lemma SendBid_request_TransactionSlice:
  assumes "SendBid_request marshal (TransactionSlice v) amount bn ds de = Returns (Inr req)"
  shows "TxHashes req = [] \<and> length (RawTransactions req) = length v"
proof -
  from assms obtain raws where m: "marshal_loop marshal v [] = Returns (Inr raws)"
    by (auto simp: SendBid_request_def split: outcome.splits sum.splits)
  from marshal_loop_length [OF m] have l: "length raws = length v" by simp
  from assms m l show ?thesis
    by (cases raws) (auto simp: SendBid_request_def)
qed

lemma recv_loop_ending_stream: "recv_loop ending_stream 0 [] = Some (Inr [''c0'', ''c1''], 3)"
proof -
  have "\<forall>i<length [''c0'', ''c1'']. ending_stream (0 + i) = Msg ([''c0'', ''c1''] ! i)"
    by (simp add: ending_stream_def less_Suc_eq)
  from recv_loop_msgs [OF this, of "[]"]
  have "recv_loop ending_stream 0 [] = recv_loop ending_stream (Suc (Suc 0)) [''c0'', ''c1'']"
    by simp
  moreover have "ending_stream (Suc (Suc 0)) = EOF"
    by (simp add: ending_stream_def)
  ultimately show ?thesis
    by (simp add: recv_loop_EOF)
qed

lemma sample_request:
  "SendBid_request sample_marshal (StringSlice [''0xab'']) ''1'' 8 0 36000 = Returns (Inr sample_bid)"
  by (simp add: SendBid_request_StringSlice sample_bid_def TrimPrefix_def HasPrefix_def)

lemma marshal_loop_all:
  "list_all2 (\<lambda>tx b. marshal tx = Inr b) txs bs \<Longrightarrow>
     marshal_loop marshal (map Some txs @ rest) acc =
       marshal_loop marshal rest (acc @ map EncodeToString bs)"
proof (induction txs bs arbitrary: acc rule: list_all2_induct)
  case Nil
  then show ?case by simp
next
  case (Cons tx b txs bs)
  then show ?case by simp
qed

lemma SendBid_request_marshalled:
  assumes "list_all2 (\<lambda>tx b. marshal tx = Inr b) txs bs"
  shows "SendBid_request marshal (TransactionSlice (map Some txs)) amount bn ds de =
           Returns (Inr \<lparr>Amount = amount, BlockNumber = bn, DecayStartTimestamp = ds,
                   DecayEndTimestamp = de, TxHashes = [],
                   RawTransactions = map EncodeToString bs\<rparr>)"
proof -
  from marshal_loop_all [OF assms, of "[]" "[]"]
  have "marshal_loop marshal (map Some txs) [] = Returns (Inr (map EncodeToString bs))"
    by simp
  then show ?thesis
    by (cases bs) (simp_all add: SendBid_request_def)
qed

lemma SendBid_request_marshal_error:
  assumes "list_all2 (\<lambda>tx b. marshal tx = Inr b) txs bs"
    and "marshal tx = Inl e"
  shows "SendBid_request marshal (TransactionSlice (map Some txs @ Some tx # rest))
           amount bn ds de =
           Returns (Inl (Errorf_w ''failed to marshal transaction: '' e))"
proof -
  from marshal_loop_all [OF assms(1), of "Some tx # rest" "[]"] assms(2)
  have "marshal_loop marshal (map Some txs @ Some tx # rest) [] =
          Returns (Inl (Errorf_w ''failed to marshal transaction: '' e))"
    by simp
  then show ?thesis
    by (simp add: SendBid_request_def)
qed

lemma SendBid_rejected:
  assumes "SendBid_request marshal input amount bn ds de = Returns (Inl e)"
  shows "SendBid marshal grpc input amount bn ds de =
           Some (Returns \<lparr>ret_stream = None, ret_err = Some e, request_sent = None,
                   savedRequest = None, savedResponses = None\<rparr>)"
  using assms by (simp add: SendBid_def)

lemma SendBid_refused:
  assumes "SendBid_request marshal input amount bn ds de = Returns (Inr req)"
    and "grpc req = Inl e"
  shows "SendBid marshal grpc input amount bn ds de =
           Some (Returns \<lparr>ret_stream = None,
                   ret_err = Some (Errorf_w ''failed to send bid: '' e),
                   request_sent = Some req, savedRequest = None, savedResponses = None\<rparr>)"
  using assms by (simp add: SendBid_def)

lemma SendBid_asks_request_only:
  assumes "SendBid_request marshal input amount bn ds de = Returns (Inr req)"
    and "grpc' req = grpc req"
  shows "SendBid marshal grpc' input amount bn ds de = SendBid marshal grpc input amount bn ds de"
  using assms by (simp add: SendBid_def)

text \<open>
  C4, as amended. The request that \<open>SendBid\<close> builds never has both lists non-empty.
  From a \<open>[]string\<close> it carries the hashes (without their \<open>0x\<close>) and no raw
  transaction; from a \<open>[]*types.Transaction\<close> whose elements all marshal it carries
  the hex encodings, one per element, and no hash; so for a non-empty input list exactly
  one of the two lists is non-empty. An input of another type, and a transaction that
  fails to marshal, are rejected: the call returns the error and no stream, and nothing
  is handed to the service or to the persistence goroutines. A request that is built
  is the only one the service is asked about, and when the service refuses it the call
  returns the wrapped error. Both lists are empty exactly when the input list is empty;
  such a request is built and sent like any other.
\<close>

theorem SendBid_request_forms:
  "(SendBid_request marshal input amount bn ds de = Returns (Inr req) \<longrightarrow>
       (TxHashes req = [] \<or> RawTransactions req = [])
     \<and> ((TxHashes req = [] \<and> RawTransactions req = [])
          = (input = StringSlice [] \<or> input = TransactionSlice []))
     \<and> (\<forall>v. input = StringSlice v \<longrightarrow> TxHashes req = map (\<lambda>h. TrimPrefix h ''0x'') v)
     \<and> (\<forall>v. input = TransactionSlice v \<longrightarrow> length (RawTransactions req) = length v))
 \<and> SendBid_request marshal (OtherInput T) amount bn ds de
      = Returns (Inl (Error (''unsupported input type: '' @ T)))
 \<and> (SendBid marshal grpc input amount bn ds de = Some (Returns r) \<longrightarrow>
      (case request_sent r of
         Some sent \<Rightarrow> SendBid_request marshal input amount bn ds de = Returns (Inr sent)
       | None \<Rightarrow> SendBid_request marshal input amount bn ds de = Returns (Inl (the (ret_err r)))
                \<and> ret_err r \<noteq> None))
 \<and> SendBid_request marshal (StringSlice hashes) amount bn ds de
      = Returns (Inr \<lparr>Amount = amount, BlockNumber = bn, DecayStartTimestamp = ds,
                  DecayEndTimestamp = de,
                  TxHashes = map (\<lambda>h. TrimPrefix h ''0x'') hashes, RawTransactions = []\<rparr>)
 \<and> (list_all2 (\<lambda>tx b. marshal tx = Inr b) txs bs \<longrightarrow>
      SendBid_request marshal (TransactionSlice (map Some txs)) amount bn ds de
        = Returns (Inr \<lparr>Amount = amount, BlockNumber = bn, DecayStartTimestamp = ds,
                    DecayEndTimestamp = de, TxHashes = [],
                    RawTransactions = map EncodeToString bs\<rparr>))
 \<and> (list_all2 (\<lambda>tx b. marshal tx = Inr b) txs bs \<and> marshal bad = Inl e \<longrightarrow>
      SendBid_request marshal (TransactionSlice (map Some txs @ Some bad # rest)) amount bn ds de
        = Returns (Inl (Errorf_w ''failed to marshal transaction: '' e))
    \<and> SendBid marshal grpc (TransactionSlice (map Some txs @ Some bad # rest)) amount bn ds de
        = Some (Returns \<lparr>ret_stream = None,
                  ret_err = Some (Errorf_w ''failed to marshal transaction: '' e),
                  request_sent = None, savedRequest = None, savedResponses = None\<rparr>))
 \<and> SendBid marshal grpc (OtherInput T) amount bn ds de
      = Some (Returns \<lparr>ret_stream = None,
                ret_err = Some (Error (''unsupported input type: '' @ T)),
                request_sent = None, savedRequest = None, savedResponses = None\<rparr>)
 \<and> (SendBid_request marshal input amount bn ds de = Returns (Inl e) \<longrightarrow>
      SendBid marshal grpc input amount bn ds de
        = Some (Returns \<lparr>ret_stream = None, ret_err = Some e, request_sent = None,
                  savedRequest = None, savedResponses = None\<rparr>))
 \<and> (SendBid_request marshal input amount bn ds de = Returns (Inr req) \<and> grpc req = Inl e \<longrightarrow>
      SendBid marshal grpc input amount bn ds de
        = Some (Returns \<lparr>ret_stream = None,
                  ret_err = Some (Errorf_w ''failed to send bid: '' e),
                  request_sent = Some req, savedRequest = None, savedResponses = None\<rparr>))
 \<and> (SendBid_request marshal input amount bn ds de = Returns (Inr req)
      \<and> grpc' req = grpc req \<longrightarrow>
      SendBid marshal grpc' input amount bn ds de = SendBid marshal grpc input amount bn ds de)"
proof -
  have 1: "SendBid_request marshal input amount bn ds de = Returns (Inr req) \<longrightarrow>
       (TxHashes req = [] \<or> RawTransactions req = [])
     \<and> ((TxHashes req = [] \<and> RawTransactions req = [])
          = (input = StringSlice [] \<or> input = TransactionSlice []))
     \<and> (\<forall>v. input = StringSlice v \<longrightarrow> TxHashes req = map (\<lambda>h. TrimPrefix h ''0x'') v)
     \<and> (\<forall>v. input = TransactionSlice v \<longrightarrow> length (RawTransactions req) = length v)"
  proof (intro conjI impI)
    assume a: "SendBid_request marshal input amount bn ds de = Returns (Inr req)"
    show "TxHashes req = [] \<or> RawTransactions req = []"
    proof (cases input)
      case (StringSlice v)
      with a show ?thesis by (auto simp add: SendBid_request_StringSlice)
    next
      case (TransactionSlice v)
      with a SendBid_request_TransactionSlice show ?thesis by blast
    next
      case (OtherInput T')
      with a show ?thesis by (simp add: SendBid_request_def)
    qed
    show "(TxHashes req = [] \<and> RawTransactions req = [])
            = (input = StringSlice [] \<or> input = TransactionSlice [])"
    proof (cases input)
      case (StringSlice v)
      with a show ?thesis by (auto simp add: SendBid_request_StringSlice)
    next
      case (TransactionSlice v)
      with a SendBid_request_TransactionSlice [of marshal v amount bn ds de req]
      show ?thesis by auto
    next
      case (OtherInput T')
      with a show ?thesis by (simp add: SendBid_request_def)
    qed
    show "\<forall>v. input = StringSlice v \<longrightarrow> TxHashes req = map (\<lambda>h. TrimPrefix h ''0x'') v"
      using a by (auto simp add: SendBid_request_StringSlice)
    show "\<forall>v. input = TransactionSlice v \<longrightarrow> length (RawTransactions req) = length v"
      using a SendBid_request_TransactionSlice by blast
  qed
  have 2: "SendBid_request marshal (OtherInput T) amount bn ds de
          = Returns (Inl (Error (''unsupported input type: '' @ T)))"
    by (simp add: SendBid_request_def)
  have 3: "SendBid marshal grpc input amount bn ds de = Some (Returns r) \<longrightarrow>
      (case request_sent r of
         Some sent \<Rightarrow> SendBid_request marshal input amount bn ds de = Returns (Inr sent)
       | None \<Rightarrow> SendBid_request marshal input amount bn ds de = Returns (Inl (the (ret_err r)))
                \<and> ret_err r \<noteq> None)"
    by (auto simp: SendBid_def split: outcome.splits sum.splits option.splits prod.splits)
  have 4: "SendBid_request marshal (StringSlice hashes) amount bn ds de
      = Returns (Inr \<lparr>Amount = amount, BlockNumber = bn, DecayStartTimestamp = ds,
                  DecayEndTimestamp = de,
                  TxHashes = map (\<lambda>h. TrimPrefix h ''0x'') hashes, RawTransactions = []\<rparr>)"
    by (rule SendBid_request_StringSlice)
  have 5: "list_all2 (\<lambda>tx b. marshal tx = Inr b) txs bs \<longrightarrow>
      SendBid_request marshal (TransactionSlice (map Some txs)) amount bn ds de
        = Returns (Inr \<lparr>Amount = amount, BlockNumber = bn, DecayStartTimestamp = ds,
                    DecayEndTimestamp = de, TxHashes = [],
                    RawTransactions = map EncodeToString bs\<rparr>)"
    using SendBid_request_marshalled [of marshal txs bs amount bn ds de] by blast
  have 6: "list_all2 (\<lambda>tx b. marshal tx = Inr b) txs bs \<and> marshal bad = Inl e \<longrightarrow>
      SendBid_request marshal (TransactionSlice (map Some txs @ Some bad # rest)) amount bn ds de
        = Returns (Inl (Errorf_w ''failed to marshal transaction: '' e))
    \<and> SendBid marshal grpc (TransactionSlice (map Some txs @ Some bad # rest)) amount bn ds de
        = Some (Returns \<lparr>ret_stream = None,
                  ret_err = Some (Errorf_w ''failed to marshal transaction: '' e),
                  request_sent = None, savedRequest = None, savedResponses = None\<rparr>)"
  proof (intro impI)
    assume "list_all2 (\<lambda>tx b. marshal tx = Inr b) txs bs \<and> marshal bad = Inl e"
    then have h: "list_all2 (\<lambda>tx b. marshal tx = Inr b) txs bs" "marshal bad = Inl e"
      by simp_all
    have q: "SendBid_request marshal (TransactionSlice (map Some txs @ Some bad # rest))
               amount bn ds de
             = Returns (Inl (Errorf_w ''failed to marshal transaction: '' e))"
      using h by (rule SendBid_request_marshal_error)
    from q SendBid_rejected [OF q, of grpc]
    show "SendBid_request marshal (TransactionSlice (map Some txs @ Some bad # rest))
            amount bn ds de
          = Returns (Inl (Errorf_w ''failed to marshal transaction: '' e))
       \<and> SendBid marshal grpc (TransactionSlice (map Some txs @ Some bad # rest))
            amount bn ds de
          = Some (Returns \<lparr>ret_stream = None,
                  ret_err = Some (Errorf_w ''failed to marshal transaction: '' e),
                  request_sent = None, savedRequest = None, savedResponses = None\<rparr>)"
      by (rule conjI)
  qed
  have 7: "SendBid marshal grpc (OtherInput T) amount bn ds de
      = Some (Returns \<lparr>ret_stream = None,
                ret_err = Some (Error (''unsupported input type: '' @ T)),
                request_sent = None, savedRequest = None, savedResponses = None\<rparr>)"
    using 2 by (rule SendBid_rejected)
  have 8: "SendBid_request marshal input amount bn ds de = Returns (Inl e) \<longrightarrow>
      SendBid marshal grpc input amount bn ds de
        = Some (Returns \<lparr>ret_stream = None, ret_err = Some e, request_sent = None,
                  savedRequest = None, savedResponses = None\<rparr>)"
    using SendBid_rejected [of marshal input amount bn ds de e grpc] by blast
  have 9: "SendBid_request marshal input amount bn ds de = Returns (Inr req) \<and> grpc req = Inl e \<longrightarrow>
      SendBid marshal grpc input amount bn ds de
        = Some (Returns \<lparr>ret_stream = None,
                  ret_err = Some (Errorf_w ''failed to send bid: '' e),
                  request_sent = Some req, savedRequest = None, savedResponses = None\<rparr>)"
    using SendBid_refused [of marshal input amount bn ds de req grpc e] by blast
  have 10: "SendBid_request marshal input amount bn ds de = Returns (Inr req)
      \<and> grpc' req = grpc req \<longrightarrow>
      SendBid marshal grpc' input amount bn ds de = SendBid marshal grpc input amount bn ds de"
    using SendBid_asks_request_only [of marshal input amount bn ds de req grpc' grpc] by blast
  from 1 2 3 4 5 6 7 8 9 10 show ?thesis by (intro conjI)
qed

theorem SendBid_request_forms_witness:
  "SendBid_request sample_marshal (StringSlice [''0xab'']) ''1'' 8 0 36000
     = Returns (Inr sample_bid)
 \<and> TxHashes sample_bid = [''ab''] \<and> RawTransactions sample_bid = []
 \<and> SendBid sample_marshal sample_grpc (StringSlice [''0xab'']) ''1'' 8 0 36000
     = Some (Returns \<lparr>ret_stream = Some (ending_stream, 3), ret_err = None,
          request_sent = Some sample_bid, savedRequest = Some sample_bid,
          savedResponses = Some [''c0'', ''c1'']\<rparr>)
 \<and> SendBid_request sample_marshal (TransactionSlice [Some (sample_tx 4)]) ''1'' 8 0 36000
     = Returns (Inr \<lparr>Amount = ''1'', BlockNumber = 8, DecayStartTimestamp = 0,
                 DecayEndTimestamp = 36000, TxHashes = [], RawTransactions = [''0204'']\<rparr>)
 \<and> SendBid_request picky_marshal
       (TransactionSlice [Some (sample_tx 4), Some (sample_tx 5), Some (sample_tx 6)])
       ''1'' 8 0 36000
     = Returns (Inl (Error ''failed to marshal transaction: rlp: bad''))
 \<and> SendBid picky_marshal sample_grpc
       (TransactionSlice [Some (sample_tx 4), Some (sample_tx 5), Some (sample_tx 6)])
       ''1'' 8 0 36000
     = Some (Returns \<lparr>ret_stream = None,
          ret_err = Some (Error ''failed to marshal transaction: rlp: bad''),
          request_sent = None, savedRequest = None, savedResponses = None\<rparr>)
 \<and> SendBid sample_marshal refusing_grpc (StringSlice [''0xab'']) ''1'' 8 0 36000
     = Some (Returns \<lparr>ret_stream = None,
          ret_err = Some (Error ''failed to send bid: unavailable''),
          request_sent = Some sample_bid, savedRequest = None, savedResponses = None\<rparr>)
 \<and> SendBid sample_marshal
       (\<lambda>q. if TxHashes q = [''ab''] then sample_grpc q else Inl (Error ''not asked''))
       (StringSlice [''0xab'']) ''1'' 8 0 36000
     = SendBid sample_marshal sample_grpc (StringSlice [''0xab'']) ''1'' 8 0 36000"
proof -
  let ?r = "\<lparr>ret_stream = Some (ending_stream, 3), ret_err = None,
          request_sent = Some sample_bid, savedRequest = Some sample_bid,
          savedResponses = Some [''c0'', ''c1'']\<rparr>"
  let ?picked = "\<lambda>q. if TxHashes q = [''ab''] then sample_grpc q else Inl (Error ''not asked'')"
  have s: "SendBid sample_marshal sample_grpc (StringSlice [''0xab'']) ''1'' 8 0 36000
             = Some (Returns ?r)"
    by (simp add: SendBid_def sample_request sample_grpc_def recv_loop_ending_stream)
  have ok: "list_all2 (\<lambda>tx b. sample_marshal tx = Inr b) [sample_tx 4] [[2, 4]]"
    by (simp add: sample_marshal_def sample_tx_def)
  have pk: "list_all2 (\<lambda>tx b. picky_marshal tx = Inr b) [sample_tx 4] [[2, 4]]
            \<and> picky_marshal (sample_tx 5) = Inl (Error ''rlp: bad'')"
    by (simp add: picky_marshal_def sample_marshal_def sample_tx_def)
  have rf: "refusing_grpc sample_bid = Inl (Error ''unavailable'')"
    by (simp add: refusing_grpc_def)
  have same: "?picked sample_bid = sample_grpc sample_bid"
    by (simp add: sample_bid_def)
  note a = SendBid_request_forms [where marshal = sample_marshal
      and input = "StringSlice [''0xab'']" and amount = "''1''" and bn = 8 and ds = 0
      and de = 36000 and req = sample_bid and grpc = sample_grpc and r = ?r
      and T = "''int''" and txs = "[sample_tx 4]" and bs = "[[2, 4]]"
      and grpc' = ?picked and hashes = "[]" and bad = "sample_tx 5"
      and e = "Error ''unavailable''" and rest = "[]"]
  from a sample_request s
  have f: "(TxHashes sample_bid = [] \<or> RawTransactions sample_bid = [])
         \<and> TxHashes sample_bid = map (\<lambda>h. TrimPrefix h ''0x'') [''0xab'']"
    by auto
  then have t: "TxHashes sample_bid = [''ab'']"
    by (simp add: TrimPrefix_def HasPrefix_def)
  with f have w1: "RawTransactions sample_bid = []" by auto
  from a ok have w2:
    "SendBid_request sample_marshal (TransactionSlice [Some (sample_tx 4)]) ''1'' 8 0 36000
     = Returns (Inr \<lparr>Amount = ''1'', BlockNumber = 8, DecayStartTimestamp = 0,
                 DecayEndTimestamp = 36000, TxHashes = [], RawTransactions = [''0204'']\<rparr>)"
    by (simp add: EncodeToString_def hexdigit_def)
  from a sample_request same have w6:
    "SendBid sample_marshal ?picked (StringSlice [''0xab'']) ''1'' 8 0 36000
     = SendBid sample_marshal sample_grpc (StringSlice [''0xab'']) ''1'' 8 0 36000"
    by blast
  from SendBid_request_forms [where marshal = picky_marshal and grpc = sample_grpc
      and input = "StringSlice [''0xab'']" and amount = "''1''" and bn = 8 and ds = 0
      and de = 36000 and req = sample_bid and r = ?r and T = "''int''" and hashes = "[]"
      and txs = "[sample_tx 4]" and bs = "[[2, 4]]" and bad = "sample_tx 5"
      and e = "Error ''rlp: bad''" and rest = "[Some (sample_tx 6)]"
      and grpc' = sample_grpc] pk
  have w3:
    "SendBid_request picky_marshal
       (TransactionSlice [Some (sample_tx 4), Some (sample_tx 5), Some (sample_tx 6)])
       ''1'' 8 0 36000
     = Returns (Inl (Error ''failed to marshal transaction: rlp: bad''))"
    and w4:
    "SendBid picky_marshal sample_grpc
       (TransactionSlice [Some (sample_tx 4), Some (sample_tx 5), Some (sample_tx 6)])
       ''1'' 8 0 36000
     = Some (Returns \<lparr>ret_stream = None,
          ret_err = Some (Error ''failed to marshal transaction: rlp: bad''),
          request_sent = None, savedRequest = None, savedResponses = None\<rparr>)"
    by (simp_all add: Errorf_w_def)
  from SendBid_request_forms [where marshal = sample_marshal and grpc = refusing_grpc
      and input = "StringSlice [''0xab'']" and amount = "''1''" and bn = 8 and ds = 0
      and de = 36000 and req = sample_bid and r = ?r and T = "''int''" and hashes = "[]"
      and txs = "[]" and bs = "[]" and bad = "sample_tx 5"
      and e = "Error ''unavailable''" and rest = "[]" and grpc' = refusing_grpc]
    sample_request rf
  have w5:
    "SendBid sample_marshal refusing_grpc (StringSlice [''0xab'']) ''1'' 8 0 36000
     = Some (Returns \<lparr>ret_stream = None,
          ret_err = Some (Error ''failed to send bid: unavailable''),
          request_sent = Some sample_bid, savedRequest = None, savedResponses = None\<rparr>)"
    by (simp add: Errorf_w_def)
  from sample_request t w1 s w2 w3 w4 w5 w6 show ?thesis by (intro conjI)
qed

text \<open>
  C4 as stated fails: for an empty list of hashes the request with both lists empty is
  handed to the service and the call returns without error.
\<close>

theorem SendBid_empty_list_counterexample:
  "SendBid sample_marshal sample_grpc (StringSlice []) ''1'' 8 0 36000 =
     Some (Returns \<lparr>ret_stream = Some (ending_stream, 3), ret_err = None,
        request_sent = Some \<lparr>Amount = ''1'', BlockNumber = 8, DecayStartTimestamp = 0,
                              DecayEndTimestamp = 36000, TxHashes = [], RawTransactions = []\<rparr>,
        savedRequest = Some \<lparr>Amount = ''1'', BlockNumber = 8, DecayStartTimestamp = 0,
                              DecayEndTimestamp = 36000, TxHashes = [], RawTransactions = []\<rparr>,
        savedResponses = Some [''c0'', ''c1'']\<rparr>)"
  by (simp add: SendBid_def SendBid_request_StringSlice sample_grpc_def recv_loop_ending_stream)


text \<open>
  C5. Once the service has opened the stream, \<open>SendBid\<close> returns only after reading
  it to its end: if the stream gives the messages \<open>ms\<close> and then end of stream, the
  call returns the stream, read past its end marker, with no error, having handed
  exactly \<open>ms\<close> to \<open>saveBidResponses\<close>; if it gives \<open>ms\<close> and then another
  error, the call returns that error (wrapped) and no stream, and the messages
  accumulated are handed to nobody; on a stream that never ends the call does not
  return.
\<close>

theorem SendBid_drains_stream:
  assumes "SendBid_request marshal input amount bn ds de = Returns (Inr req)"
    and "grpc req = Inr response"
  shows "((\<forall>i<length ms. response i = Msg (ms ! i)) \<and> response (length ms) = EOF \<longrightarrow>
            SendBid marshal grpc input amount bn ds de =
              Some (Returns \<lparr>ret_stream = Some (response, Suc (length ms)), ret_err = None,
                     request_sent = Some req, savedRequest = Some req,
                     savedResponses = Some ms\<rparr>))
       \<and> ((\<forall>i<length ms. response i = Msg (ms ! i)) \<and> response (length ms) = RecvError e \<longrightarrow>
            SendBid marshal grpc input amount bn ds de =
              Some (Returns \<lparr>ret_stream = None,
                     ret_err = Some (Errorf_w ''failed to send bid: '' e),
                     request_sent = Some req, savedRequest = Some req,
                     savedResponses = None\<rparr>))
       \<and> ((\<forall>i. \<exists>m. response i = Msg m) \<longrightarrow>
            SendBid marshal grpc input amount bn ds de = None)"
proof (intro conjI impI)
  assume a: "(\<forall>i<length ms. response i = Msg (ms ! i)) \<and> response (length ms) = EOF"
  then have "recv_loop response 0 [] = recv_loop response (length ms) ms"
    using recv_loop_msgs [of ms response 0 "[]"] by simp
  with a have "recv_loop response 0 [] = Some (Inr ms, Suc (length ms))"
    by (simp add: recv_loop_EOF)
  with assms show "SendBid marshal grpc input amount bn ds de =
              Some (Returns \<lparr>ret_stream = Some (response, Suc (length ms)), ret_err = None,
                     request_sent = Some req, savedRequest = Some req,
                     savedResponses = Some ms\<rparr>)"
    by (simp add: SendBid_def)
next
  assume a: "(\<forall>i<length ms. response i = Msg (ms ! i)) \<and> response (length ms) = RecvError e"
  then have "recv_loop response 0 [] = recv_loop response (length ms) ms"
    using recv_loop_msgs [of ms response 0 "[]"] by simp
  with a have "recv_loop response 0 [] =
                 Some (Inl (Errorf_w ''failed to send bid: '' e), Suc (length ms))"
    by (simp add: recv_loop_RecvError)
  with assms show "SendBid marshal grpc input amount bn ds de =
              Some (Returns \<lparr>ret_stream = None,
                     ret_err = Some (Errorf_w ''failed to send bid: '' e),
                     request_sent = Some req, savedRequest = Some req,
                     savedResponses = None\<rparr>)"
    by (simp add: SendBid_def)
next
  assume "\<forall>i. \<exists>m. response i = Msg m"
  then have "recv_loop response 0 [] = None" by (rule recv_loop_endless)
  with assms show "SendBid marshal grpc input amount bn ds de = None"
    by (simp add: SendBid_def)
qed

theorem SendBid_drains_stream_witness:
  "SendBid sample_marshal (\<lambda>req. Inr ending_stream) (StringSlice [''0xab'']) ''1'' 8 0 36000
     = Some (Returns \<lparr>ret_stream = Some (ending_stream, 3), ret_err = None,
          request_sent = Some sample_bid, savedRequest = Some sample_bid,
          savedResponses = Some [''c0'', ''c1'']\<rparr>)
 \<and> SendBid sample_marshal (\<lambda>req. Inr broken_stream) (StringSlice [''0xab'']) ''1'' 8 0 36000
     = Some (Returns \<lparr>ret_stream = None, ret_err = Some (Error ''failed to send bid: reset''),
          request_sent = Some sample_bid, savedRequest = Some sample_bid,
          savedResponses = None\<rparr>)
 \<and> SendBid sample_marshal (\<lambda>req. Inr endless_stream) (StringSlice [''0xab'']) ''1'' 8 0 36000
     = None"
proof -
  have e: "(\<forall>i<length [''c0'', ''c1'']. ending_stream i = Msg ([''c0'', ''c1''] ! i))
           \<and> ending_stream (length [''c0'', ''c1'']) = EOF"
    by (simp add: ending_stream_def less_Suc_eq)
  have b: "(\<forall>i<length [''c0'']. broken_stream i = Msg ([''c0''] ! i))
           \<and> broken_stream (length [''c0'']) = RecvError (Error ''reset'')"
    by (simp add: broken_stream_def)
  have n: "\<forall>i. \<exists>m. endless_stream i = Msg m"
    by (simp add: endless_stream_def)
  have 1: "SendBid sample_marshal (\<lambda>req. Inr ending_stream) (StringSlice [''0xab'']) ''1'' 8 0 36000
     = Some (Returns \<lparr>ret_stream = Some (ending_stream, 3), ret_err = None,
          request_sent = Some sample_bid, savedRequest = Some sample_bid,
          savedResponses = Some [''c0'', ''c1'']\<rparr>)"
    using SendBid_drains_stream [where grpc = "\<lambda>req. Inr ending_stream"
        and ms = "[''c0'', ''c1'']", OF sample_request refl] e
    by simp
  have 2: "SendBid sample_marshal (\<lambda>req. Inr broken_stream) (StringSlice [''0xab'']) ''1'' 8 0 36000
     = Some (Returns \<lparr>ret_stream = None, ret_err = Some (Error ''failed to send bid: reset''),
          request_sent = Some sample_bid, savedRequest = Some sample_bid,
          savedResponses = None\<rparr>)"
    using SendBid_drains_stream [where grpc = "\<lambda>req. Inr broken_stream"
        and ms = "[''c0'']" and e = "Error ''reset''", OF sample_request refl] b
    by (simp add: Errorf_w_def)
  have 3: "SendBid sample_marshal (\<lambda>req. Inr endless_stream) (StringSlice [''0xab'']) ''1'' 8 0 36000
     = None"
    using SendBid_drains_stream [where grpc = "\<lambda>req. Inr endless_stream",
        OF sample_request refl] n
    by simp
  from 1 2 3 show ?thesis by blast
qed

section \<open>The decay window\<close>

lemma Milliseconds_36s: "Milliseconds (36 * Second) = 36000"
  by (simp add: Milliseconds_def Second_def)

lemma SendBid_request_fields:
  assumes "SendBid_request marshal input amount bn ds de = Returns (Inr req)"
  shows "Amount req = amount \<and> BlockNumber req = bn
       \<and> DecayStartTimestamp req = ds \<and> DecayEndTimestamp req = de"
  using assms
  by (auto simp: SendBid_request_def Let_def
      split: bid_input.splits outcome.splits sum.splits if_splits)

lemma SendBid_sent_request:
  assumes "SendBid marshal grpc input amount bn ds de = Some (Returns r)"
    and "request_sent r = Some req"
  shows "SendBid_request marshal input amount bn ds de = Returns (Inr req)"
  using assms
  by (auto simp: SendBid_def split: outcome.splits sum.splits option.splits prod.splits)

lemma SendBid_cong_on_window:
  assumes "\<forall>q. DecayStartTimestamp q = ds \<and> DecayEndTimestamp q = de \<longrightarrow> grpc' q = grpc q"
  shows "SendBid marshal grpc' input amount bn ds de = SendBid marshal grpc input amount bn ds de"
proof (cases "SendBid_request marshal input amount bn ds de")
  case (Returns x)
  show ?thesis
  proof (cases x)
    case (Inl e)
    with Returns show ?thesis by (simp add: SendBid_def)
  next
    case (Inr req)
    with Returns SendBid_request_fields [of marshal input amount bn ds de req] assms
    have "grpc' req = grpc req" by simp
    with Returns Inr show ?thesis by (simp add: SendBid_def)
  qed
next
  case (Panics p)
  then show ?thesis by (simp add: SendBid_def)
next
  case (Exits p)
  then show ?thesis by (simp add: SendBid_def)
qed

lemma sint_add_36000:
  fixes now :: int64
  assumes "sint now < 2 ^ 63 - 36000"
  shows "sint (now + 36000) = sint now + 36000"
proof -
  have "- (2 ^ 63) \<le> sint now" using sint_ge [of now] by simp
  with assms have "- (2 ^ 63) \<le> sint now + 36000" "sint now + 36000 < 2 ^ 63" by simp_all
  then have "signed_take_bit 63 (sint now + 36000) = sint now + 36000"
    by (simp add: signed_take_bit_int_eq_self)
  moreover have "sint (now + 36000) = signed_take_bit 63 (sint now + sint (36000 :: int64))"
    by (simp add: sint_word_ariths)
  ultimately show ?thesis by simp
qed

text \<open>
  C8. For a clock reading \<open>now\<close> (milliseconds since the epoch, an \<open>int64\<close>) below
  \<open>2^63 - 36000\<close>, that is for every date of the next 292 million years, every bid
  that \<open>sendPreconfBid\<close> submits has \<open>decay_start = now\<close>,
  \<open>decay_end - decay_start = 36000\<close> and \<open>decay_end > decay_start\<close>: this holds of
  the request of every call that returns, and the call asks the service about no
  request with another window (changing the service on such requests changes nothing).
\<close>

theorem sendPreconfBid_decay_window:
  assumes "sint now < 2 ^ 63 - 36000"
  shows "(sendPreconfBid marshal grpc now amount input blockNumber = Some (Returns (Some r))
          \<and> request_sent r = Some req \<longrightarrow>
            DecayStartTimestamp req = now
          \<and> sint (DecayEndTimestamp req) - sint (DecayStartTimestamp req) = 36000
          \<and> sint (DecayStartTimestamp req) < sint (DecayEndTimestamp req))
       \<and> ((\<forall>q. DecayStartTimestamp q = now \<and> DecayEndTimestamp q = now + 36000
                 \<longrightarrow> grpc' q = grpc q) \<longrightarrow>
            sendPreconfBid marshal grpc' now amount input blockNumber
              = sendPreconfBid marshal grpc now amount input blockNumber)"
proof (intro conjI impI)
  assume a: "sendPreconfBid marshal grpc now amount input blockNumber = Some (Returns (Some r))
          \<and> request_sent r = Some req"
  then obtain payload where
    "SendBid marshal grpc payload amount blockNumber now (now + 36000) = Some (Returns r)"
    by (auto simp: sendPreconfBid_def Let_def Milliseconds_36s
        split: preconf_input.splits option.splits outcome.splits)
  with a have "SendBid_request marshal payload amount blockNumber now (now + 36000)
                 = Returns (Inr req)"
    by (simp add: SendBid_sent_request)
  from SendBid_request_fields [OF this]
  have f: "DecayStartTimestamp req = now" "DecayEndTimestamp req = now + 36000" by simp_all
  show "DecayStartTimestamp req = now" by (rule f)
  show "sint (DecayEndTimestamp req) - sint (DecayStartTimestamp req) = 36000"
    using f sint_add_36000 [OF assms] by simp
  show "sint (DecayStartTimestamp req) < sint (DecayEndTimestamp req)"
    using f sint_add_36000 [OF assms] by simp
next
  assume "\<forall>q. DecayStartTimestamp q = now \<and> DecayEndTimestamp q = now + 36000
                 \<longrightarrow> grpc' q = grpc q"
  from SendBid_cong_on_window [OF this]
  have c: "\<And>payload. SendBid marshal grpc' payload amount blockNumber now (now + 36000)
             = SendBid marshal grpc payload amount blockNumber now (now + 36000)" .
  show "sendPreconfBid marshal grpc' now amount input blockNumber
              = sendPreconfBid marshal grpc now amount input blockNumber"
  proof (cases input)
    case (InputString v)
    then show ?thesis by (simp add: sendPreconfBid_def Let_def Milliseconds_36s c)
  next
    case (InputTransaction t)
    then show ?thesis
      by (cases t) (simp_all add: sendPreconfBid_def Let_def Milliseconds_36s c)
  next
    case InputOther
    then show ?thesis by (simp add: sendPreconfBid_def)
  qed
qed

theorem sendPreconfBid_decay_window_witness:
  "sendPreconfBid sample_marshal sample_grpc 1728667766708 ''1'' (InputString ''0xab'') 8
     = Some (Returns (Some \<lparr>ret_stream = Some (ending_stream, 3), ret_err = None,
          request_sent = Some (sample_bid\<lparr>DecayStartTimestamp := 1728667766708,
                                            DecayEndTimestamp := 1728667802708\<rparr>),
          savedRequest = Some (sample_bid\<lparr>DecayStartTimestamp := 1728667766708,
                                            DecayEndTimestamp := 1728667802708\<rparr>),
          savedResponses = Some [''c0'', ''c1'']\<rparr>))
 \<and> sint (1728667802708 :: int64) - sint (1728667766708 :: int64) = 36000
 \<and> sint (1728667766708 :: int64) < sint (1728667802708 :: int64)
 \<and> sendPreconfBid sample_marshal
       (\<lambda>q. if DecayStartTimestamp q = 1728667766708 then sample_grpc q
            else Inl (Error ''not asked''))
       1728667766708 ''1'' (InputString ''0xab'') 8
     = sendPreconfBid sample_marshal sample_grpc 1728667766708 ''1'' (InputString ''0xab'') 8"
proof -
  let ?req = "sample_bid\<lparr>DecayStartTimestamp := 1728667766708,
                         DecayEndTimestamp := 1728667802708\<rparr>"
  let ?r = "\<lparr>ret_stream = Some (ending_stream, 3), ret_err = None,
          request_sent = Some ?req, savedRequest = Some ?req,
          savedResponses = Some [''c0'', ''c1'']\<rparr>"
  have c: "sint (1728667766708 :: int64) < 2 ^ 63 - 36000" by simp
  have s: "sendPreconfBid sample_marshal sample_grpc 1728667766708 ''1'' (InputString ''0xab'') 8
             = Some (Returns (Some ?r))"
    by (simp add: sendPreconfBid_def Let_def Milliseconds_36s SendBid_def
        SendBid_request_StringSlice sample_grpc_def recv_loop_ending_stream sample_bid_def
        TrimPrefix_def HasPrefix_def)
  from sendPreconfBid_decay_window [OF c, of sample_marshal sample_grpc "''1''"
      "InputString ''0xab''" 8 ?r ?req] s
  have "sint (DecayEndTimestamp ?req) - sint (DecayStartTimestamp ?req) = 36000
      \<and> sint (DecayStartTimestamp ?req) < sint (DecayEndTimestamp ?req)"
    by simp
  moreover
  from sendPreconfBid_decay_window [OF c, of sample_marshal sample_grpc "''1''"
      "InputString ''0xab''" 8 ?r ?req
      "\<lambda>q. if DecayStartTimestamp q = 1728667766708 then sample_grpc q
           else Inl (Error ''not asked'')"]
  have "sendPreconfBid sample_marshal
       (\<lambda>q. if DecayStartTimestamp q = 1728667766708 then sample_grpc q
            else Inl (Error ''not asked''))
       1728667766708 ''1'' (InputString ''0xab'') 8
     = sendPreconfBid sample_marshal sample_grpc 1728667766708 ''1'' (InputString ''0xab'') 8"
    by simp
  ultimately show ?thesis using s by simp
qed

section \<open>Reconnecting\<close>

lemma connectWSClient_retries:
  "\<forall>i<n. \<exists>e. dial (dials st + i) = Inl e \<Longrightarrow> dial (dials st + n) = Inr c \<Longrightarrow>
     connectWSClient dial st =
       Some ((Some c, None), st\<lparr>dials := Suc (dials st + n), slept := slept st + 10 * n\<rparr>)"
proof (induction n arbitrary: st)
  case 0
  then show ?case by (subst connectWSClient.simps) simp
next
  case (Suc n)
  let ?st = "st\<lparr>dials := Suc (dials st), slept := slept st + 10\<rparr>"
  from Suc.prems(1) obtain e where e: "dial (dials st) = Inl e" by force
  from Suc.prems(1) have "\<forall>i<n. \<exists>e. dial (dials ?st + i) = Inl e" by force
  moreover from Suc.prems(2) have "dial (dials ?st + n) = Inr c" by simp
  ultimately have "connectWSClient dial ?st =
       Some ((Some c, None), ?st\<lparr>dials := Suc (dials ?st + n), slept := slept ?st + 10 * n\<rparr>)"
    by (rule Suc.IH)
  with e show ?case by (subst connectWSClient.simps) simp
qed

lemma connectWSClient_returns_dialled:
  assumes "connectWSClient dial st = Some y"
  shows "\<exists>k\<ge>dials st. \<exists>c. dial k = Inr c"
proof (rule connectWSClient.raw_induct
    [where P = "\<lambda>dial st y. \<exists>k\<ge>dials st. \<exists>c. dial k = Inr c", OF _ assms])
  fix f and dial :: "nat \<Rightarrow> error + 'a" and st y
  assume IH: "\<And>dial st y. f dial st = Some y \<Longrightarrow> \<exists>k\<ge>dials st. \<exists>c. dial k = Inr c"
    and step: "(case dial (dials st) of
                  Inl err \<Rightarrow> f dial (st\<lparr>dials := Suc (dials st), slept := slept st + 10\<rparr>)
                | Inr wsClient \<Rightarrow> Some ((Some wsClient, None), st\<lparr>dials := Suc (dials st)\<rparr>))
               = Some y"
  show "\<exists>k\<ge>dials st. \<exists>c. dial k = Inr c"
  proof (cases "dial (dials st)")
    case (Inl e)
    with step have "f dial (st\<lparr>dials := Suc (dials st), slept := slept st + 10\<rparr>) = Some y"
      by simp
    from IH [OF this] obtain k c where "Suc (dials st) \<le> k" "dial k = Inr c" by auto
    then have "dials st \<le> k \<and> dial k = Inr c" by simp
    then show ?thesis by blast
  next
    case (Inr c)
    then show ?thesis by blast
  qed
qed

lemma connectWSClient_never:
  assumes "\<forall>k. \<exists>e. dial k = Inl e"
  shows "connectWSClient dial st = None"
proof (cases "connectWSClient dial st")
  case None
  then show ?thesis .
next
  case (Some y)
  from connectWSClient_returns_dialled [OF this] obtain k c where "dial k = Inr c" by blast
  with assms show ?thesis by (metis sum.distinct(1))
qed

lemma connectWSClient_eventually:
  assumes "\<forall>k. \<exists>j\<ge>k. \<exists>c. dial j = Inr c"
  shows "\<exists>c n. connectWSClient dial st =
           Some ((Some c, None), st\<lparr>dials := Suc (dials st + n), slept := slept st + 10 * n\<rparr>)
         \<and> dial (dials st + n) = Inr c"
proof -
  define Q where "Q j \<longleftrightarrow> dials st \<le> j \<and> (\<exists>c. dial j = Inr c)" for j
  from assms have "\<exists>j. Q j" unfolding Q_def by blast
  then have q: "Q (LEAST j. Q j)" by (rule LeastI_ex)
  define j where "j = (LEAST j. Q j)"
  define n where "n = j - dials st"
  from q have j: "dials st \<le> j" and "\<exists>c. dial j = Inr c" unfolding j_def Q_def by auto
  then obtain c where c: "dial (dials st + n) = Inr c" unfolding n_def by auto
  have "\<forall>i<n. \<exists>e. dial (dials st + i) = Inl e"
  proof (intro allI impI)
    fix i assume "i < n"
    then have "dials st + i < j" unfolding n_def by simp
    then have "\<not> Q (dials st + i)" unfolding j_def by (rule not_less_Least)
    then have "\<not> (\<exists>c. dial (dials st + i) = Inr c)" unfolding Q_def by simp
    then show "\<exists>e. dial (dials st + i) = Inl e" by (cases "dial (dials st + i)") auto
  qed
  from connectWSClient_retries [OF this c] c show ?thesis by blast
qed


lemma reconnect_loop_spec:
  assumes ev: "\<forall>k. \<exists>j\<ge>k. \<exists>c. dial j = Inr c"
  shows "n = 10 - i \<Longrightarrow> i \<le> 10 \<Longrightarrow>
    \<exists>out st' a d. reconnect_loop dial subscribe i st = Some (out, st')
      \<and> subscriptions st' = subscriptions st + a \<and> a \<le> 10 - i
      \<and> dials st' = dials st + a + d
      \<and> ((\<exists>c s. out = Returns (c, s) \<and> 1 \<le> a
              \<and> dial (dials st' - 1) = Inr c
              \<and> subscribe c (subscriptions st' - 1) = Inr s
              \<and> slept st' = slept st + 10 * d + 5 * (a - 1))
         \<or> (out = Exits ''failed to reconnect WebSocket client after retries''
              \<and> a = 10 - i \<and> slept st' = slept st + 10 * d + 5 * a))"
proof (induction n arbitrary: i st)
  case 0
  then have "i = 10" by simp
  then have "reconnect_loop dial subscribe i st =
               Some (Exits ''failed to reconnect WebSocket client after retries'', st)"
    by (subst reconnect_loop.simps) simp
  with \<open>i = 10\<close> show ?case by simp
next
  case (Suc n)
  then have i: "i < 10" and n: "n = 10 - Suc i" and i': "Suc i \<le> 10" by simp_all
  from connectWSClient_eventually [OF ev, of st] obtain c m where
    conn: "connectWSClient dial st =
             Some ((Some c, None), st\<lparr>dials := Suc (dials st + m), slept := slept st + 10 * m\<rparr>)"
    and c: "dial (dials st + m) = Inr c" by blast
  let ?st1 = "st\<lparr>dials := Suc (dials st + m), slept := slept st + 10 * m\<rparr>"
  let ?st2 = "?st1\<lparr>subscriptions := Suc (subscriptions ?st1)\<rparr>"
  let ?st3 = "?st2\<lparr>slept := slept ?st2 + 5\<rparr>"
  show ?case
  proof (cases "subscribe c (subscriptions st)")
    case (Inr sub)
    with i conn have "reconnect_loop dial subscribe i st = Some (Returns (c, sub), ?st2)"
      by (subst reconnect_loop.simps) simp
    moreover have "subscriptions ?st2 = subscriptions st + 1" "(1::nat) \<le> 10 - i"
      "dials ?st2 = dials st + 1 + m" "dial (dials ?st2 - 1) = Inr c"
      "subscribe c (subscriptions ?st2 - 1) = Inr sub"
      "slept ?st2 = slept st + 10 * m + 5 * (1 - 1)"
      using i c Inr by simp_all
    ultimately show ?thesis by blast
  next
    case (Inl e)
    with i conn have r: "reconnect_loop dial subscribe i st =
                           reconnect_loop dial subscribe (Suc i) ?st3"
      by (subst reconnect_loop.simps) simp
    from Suc.IH [OF n i', of ?st3] obtain out st' a d where
      IH: "reconnect_loop dial subscribe (Suc i) ?st3 = Some (out, st')"
        "subscriptions st' = subscriptions ?st3 + a" "a \<le> 10 - Suc i"
        "dials st' = dials ?st3 + a + d"
        "(\<exists>c s. out = Returns (c, s) \<and> 1 \<le> a
              \<and> dial (dials st' - 1) = Inr c
              \<and> subscribe c (subscriptions st' - 1) = Inr s
              \<and> slept st' = slept ?st3 + 10 * d + 5 * (a - 1))
         \<or> (out = Exits ''failed to reconnect WebSocket client after retries''
              \<and> a = 10 - Suc i \<and> slept st' = slept ?st3 + 10 * d + 5 * a)"
      by blast
    have 1: "reconnect_loop dial subscribe i st = Some (out, st')" using r IH(1) by simp
    have 2: "subscriptions st' = subscriptions st + Suc a" using IH(2) by simp
    have 3: "Suc a \<le> 10 - i" using IH(3) i by simp
    have 4: "dials st' = dials st + Suc a + (d + m)" using IH(4) by simp
    from IH(5) have 5:
        "(\<exists>c s. out = Returns (c, s) \<and> 1 \<le> Suc a
              \<and> dial (dials st' - 1) = Inr c
              \<and> subscribe c (subscriptions st' - 1) = Inr s
              \<and> slept st' = slept st + 10 * (d + m) + 5 * (Suc a - 1))
         \<or> (out = Exits ''failed to reconnect WebSocket client after retries''
              \<and> Suc a = 10 - i \<and> slept st' = slept st + 10 * (d + m) + 5 * Suc a)"
    proof
      assume "\<exists>c s. out = Returns (c, s) \<and> 1 \<le> a
              \<and> dial (dials st' - 1) = Inr c
              \<and> subscribe c (subscriptions st' - 1) = Inr s
              \<and> slept st' = slept ?st3 + 10 * d + 5 * (a - 1)"
      then obtain c' s' where "out = Returns (c', s')" "1 \<le> a"
        "dial (dials st' - 1) = Inr c'" "subscribe c' (subscriptions st' - 1) = Inr s'"
        "slept st' = slept ?st3 + 10 * d + 5 * (a - 1)" by blast
      moreover from this have "slept st' = slept st + 10 * (d + m) + 5 * (Suc a - 1)"
        by simp
      ultimately show ?thesis by simp
    next
      assume "out = Exits ''failed to reconnect WebSocket client after retries''
              \<and> a = 10 - Suc i \<and> slept st' = slept ?st3 + 10 * d + 5 * a"
      with i show ?thesis by simp
    qed
    from 1 2 3 4 5 show ?thesis by blast
  qed
qed


lemma reconnectWSClient_never:
  assumes "\<forall>k. \<exists>e. dial k = Inl e"
  shows "reconnectWSClient dial subscribe st = None"
  unfolding reconnectWSClient_def
  by (subst reconnect_loop.simps) (simp add: connectWSClient_never [OF assms])

text \<open>
  C9, as amended. \<open>reconnectWSClient\<close> makes at most 10 attempts, each a
  \<open>connectWSClient\<close> followed by one \<open>SubscribeNewHead\<close> on the client just dialled,
  and waits 5 seconds after a failed subscription; after 10 failed subscriptions it
  escalates to \<open>log.Crit\<close>. Within an attempt \<open>connectWSClient\<close> redials every 10
  seconds with no bound on the number of dials. So when the endpoint always accepts a
  dial again at some later time, the reconnect terminates, either with the client last
  dialled and the subscription last made, on that client, or with the fatal escalation
  after exactly 10 subscriptions; when the endpoint refuses every dial, it never
  returns.
\<close>

theorem reconnectWSClient_bounded_attempts:
  "((\<forall>k. \<exists>j\<ge>k. \<exists>c. dial j = Inr c) \<longrightarrow>
     (\<exists>out st' a d. reconnectWSClient dial subscribe st = Some (out, st')
        \<and> subscriptions st' = subscriptions st + a \<and> a \<le> 10
        \<and> dials st' = dials st + a + d
        \<and> ((\<exists>c s. out = Returns (c, s) \<and> 1 \<le> a
                \<and> dial (dials st' - 1) = Inr c
                \<and> subscribe c (subscriptions st' - 1) = Inr s
                \<and> slept st' = slept st + 10 * d + 5 * (a - 1))
           \<or> (out = Exits ''failed to reconnect WebSocket client after retries''
                \<and> a = 10 \<and> slept st' = slept st + 10 * d + 5 * a))))
 \<and> ((\<forall>k. \<exists>e. dial k = Inl e) \<longrightarrow> reconnectWSClient dial subscribe st = None)"
proof (intro conjI impI)
  assume "\<forall>k. \<exists>j\<ge>k. \<exists>c. dial j = Inr c"
  from reconnect_loop_spec [OF this, of 10 0 subscribe st]
  show "\<exists>out st' a d. reconnectWSClient dial subscribe st = Some (out, st')
        \<and> subscriptions st' = subscriptions st + a \<and> a \<le> 10
        \<and> dials st' = dials st + a + d
        \<and> ((\<exists>c s. out = Returns (c, s) \<and> 1 \<le> a
                \<and> dial (dials st' - 1) = Inr c
                \<and> subscribe c (subscriptions st' - 1) = Inr s
                \<and> slept st' = slept st + 10 * d + 5 * (a - 1))
           \<or> (out = Exits ''failed to reconnect WebSocket client after retries''
                \<and> a = 10 \<and> slept st' = slept st + 10 * d + 5 * a))"
    by (simp add: reconnectWSClient_def)
next
  assume "\<forall>k. \<exists>e. dial k = Inl e"
  then show "reconnectWSClient dial subscribe st = None" by (rule reconnectWSClient_never)
qed

declare connectWSClient.simps [code]

lemma sample_reconnect:
  "reconnectWSClient sample_dial sample_subscribe fresh =
     Some (Returns (5, 105), \<lparr>dials = 6, subscriptions = 2, slept = 45\<rparr>)"
  by code_simp

lemma failing_reconnect:
  "reconnectWSClient sample_dial failing_subscribe fresh =
     Some (Exits ''failed to reconnect WebSocket client after retries'',
           \<lparr>dials = 30, subscriptions = 10, slept = 250\<rparr>)"
  by code_simp

theorem reconnectWSClient_bounded_attempts_witness:
  "reconnectWSClient sample_dial sample_subscribe fresh =
     Some (Returns (5, 105), \<lparr>dials = 6, subscriptions = 2, slept = 45\<rparr>)
 \<and> sample_dial 5 = Inr 5 \<and> sample_subscribe 5 1 = Inr 105
 \<and> reconnectWSClient sample_dial failing_subscribe fresh =
     Some (Exits ''failed to reconnect WebSocket client after retries'',
           \<lparr>dials = 30, subscriptions = 10, slept = 250\<rparr>)
 \<and> reconnectWSClient never_dial sample_subscribe fresh = None"
proof -
  have ev: "\<forall>k. \<exists>j\<ge>k. \<exists>c. sample_dial j = Inr c"
  proof
    fix k :: nat
    have "(3 * k + 2) mod 3 = 2" by presburger
    then have "k \<le> 3 * k + 2" "sample_dial (3 * k + 2) = Inr (3 * k + 2)"
      unfolding sample_dial_def by simp_all
    then show "\<exists>j\<ge>k. \<exists>c. sample_dial j = Inr c" by blast
  qed
  have nv: "\<forall>k. \<exists>e. never_dial k = Inl e" by (simp add: never_dial_def)
  from reconnectWSClient_bounded_attempts [of sample_dial sample_subscribe fresh] ev
  obtain out st' where
    "reconnectWSClient sample_dial sample_subscribe fresh = Some (out, st')"
    "subscriptions st' \<le> subscriptions fresh + 10"
    by auto
  with sample_reconnect have 1: "reconnectWSClient sample_dial sample_subscribe fresh =
     Some (Returns (5, 105), \<lparr>dials = 6, subscriptions = 2, slept = 45\<rparr>)"
    by simp
  from reconnectWSClient_bounded_attempts [of never_dial sample_subscribe fresh] nv
  have 2: "reconnectWSClient never_dial sample_subscribe fresh = None" by simp
  have 3: "sample_dial 5 = Inr 5" "sample_subscribe 5 1 = Inr 105"
    by (simp_all add: sample_dial_def sample_subscribe_def)
  from 1 2 3 failing_reconnect show ?thesis by simp
qed

text \<open>
  C9 as stated fails: on an endpoint that refuses every dial the reconnect neither
  returns nor escalates.
\<close>

theorem reconnectWSClient_never_returns_counterexample:
  "reconnectWSClient never_dial sample_subscribe fresh = None"
  by (rule reconnectWSClient_never) (simp add: never_dial_def)

section \<open>The empty key\<close>

text \<open>
  C10. For the empty string \<open>AuthenticateAddress\<close> returns the zero-valued account (nil
  keys, zero address, nil transactor) and a nil error; the absent key is reported by
  \<open>main\<close>, whose own check of \<open>PRIVATE_KEY\<close> ends the process before the call.
\<close>

theorem AuthenticateAddress_empty_key:
  "AuthenticateAddress lib '''' =
     Returns (\<lparr>PrivateKey = None, PublicKey = None, Address = 0, Auth = None\<rparr>, None)
 \<and> main_authenticate lib '''' = Exits ''PRIVATE_KEY environment variable is required''"
  by (simp add: AuthenticateAddress_def main_authenticate_def zero_AuthAcct_def)

end
